theory Spec2Isabelle
  imports Main "HOL-Library.Char_ord" "HOL-Library.List_Lexorder" "HOL-Library.Sublist"
    "HOL-Library.AList"
begin

section \<open>Strings\<close>

text \<open>
  A Python \<open>str\<close> is modelled by the bytes \<open>os.fsencode\<close> gives it: its UTF-8
  encoding, in which a lone surrogate U+DC80 to U+DCFF (an undecodable byte of a file
  name or of a command-line argument) is that byte. So a string can be encoded as UTF-8
  exactly when its bytes are well-formed UTF-8. A \<open>str\<close> with any other lone
  surrogate has no counterpart here.
\<close>

definition lower_char :: "char \<Rightarrow> char" where
  "lower_char c =
     (let n = (of_char c :: nat) in if 65 \<le> n \<and> n \<le> 90 then char_of (n + 32) else c)"

definition upper_char :: "char \<Rightarrow> char" where
  "upper_char c =
     (let n = (of_char c :: nat) in if 97 \<le> n \<and> n \<le> 122 then char_of (n - 32) else c)"

text \<open>
  \<open>lower\<close> and \<open>upper\<close> change the ASCII letters. The script lowers a suffix only
  to look it up among the supported extensions, and the one character beyond ASCII that
  \<open>str.lower\<close> turns into ASCII is the Kelvin sign, into \<open>k\<close>, a letter of no
  supported extension; it uppers the supported extensions only.
\<close>

definition lower :: "string \<Rightarrow> string" where
  "lower s = map lower_char s"

definition upper :: "string \<Rightarrow> string" where
  "upper s = map upper_char s"

text \<open>
  The white space of \<open>str.strip\<close>, each character by its encoding: U+0009 to U+000D,
  U+001C to U+0020, U+0085, U+00A0, U+1680, U+2000 to U+200A, U+2028, U+2029, U+202F,
  U+205F and U+3000.
\<close>

definition white_space :: "string list" where
  "white_space =
    [[CHR 0x09], [CHR 0x0A], [CHR 0x0B], [CHR 0x0C], [CHR 0x0D], [CHR 0x1C], [CHR 0x1D],
     [CHR 0x1E], [CHR 0x1F], [CHR 0x20], [CHR 0xC2, CHR 0x85], [CHR 0xC2, CHR 0xA0],
     [CHR 0xE1, CHR 0x9A, CHR 0x80], [CHR 0xE2, CHR 0x80, CHR 0x80],
     [CHR 0xE2, CHR 0x80, CHR 0x81], [CHR 0xE2, CHR 0x80, CHR 0x82],
     [CHR 0xE2, CHR 0x80, CHR 0x83], [CHR 0xE2, CHR 0x80, CHR 0x84],
     [CHR 0xE2, CHR 0x80, CHR 0x85], [CHR 0xE2, CHR 0x80, CHR 0x86],
     [CHR 0xE2, CHR 0x80, CHR 0x87], [CHR 0xE2, CHR 0x80, CHR 0x88],
     [CHR 0xE2, CHR 0x80, CHR 0x89], [CHR 0xE2, CHR 0x80, CHR 0x8A],
     [CHR 0xE2, CHR 0x80, CHR 0xA8], [CHR 0xE2, CHR 0x80, CHR 0xA9],
     [CHR 0xE2, CHR 0x80, CHR 0xAF], [CHR 0xE2, CHR 0x81, CHR 0x9F],
     [CHR 0xE3, CHR 0x80, CHR 0x80]]"

text \<open>\<open>drop_ws ws s\<close> removes from the front of \<open>s\<close> every one of the words \<open>ws\<close>.\<close>

function drop_ws :: "string list \<Rightarrow> string \<Rightarrow> string" where
  "drop_ws ws s =
     (case find (\<lambda>w. w \<noteq> [] \<and> prefix w s) ws of
        None \<Rightarrow> s
      | Some w \<Rightarrow> drop_ws ws (drop (length w) s))"
  by pat_completeness auto
termination
  by (relation "measure (\<lambda>(ws, s). length s)") (auto simp: find_Some_iff prefix_def)

definition strip :: "string \<Rightarrow> string" where
  "strip s = rev (drop_ws (map rev white_space) (rev (drop_ws white_space s)))"

text \<open>Well-formed UTF-8: what the strict codec encodes and decodes.\<close>

definition cont :: "char \<Rightarrow> bool" where
  "cont c \<longleftrightarrow> (let n = (of_char c :: nat) in 128 \<le> n \<and> n \<le> 191)"

definition second :: "nat \<Rightarrow> char \<Rightarrow> bool" where
  "second lead c \<longleftrightarrow>
     (let n = (of_char c :: nat)
      in if lead = 224 then 160 \<le> n \<and> n \<le> 191
         else if lead = 237 then 128 \<le> n \<and> n \<le> 159
         else if lead = 240 then 144 \<le> n \<and> n \<le> 191
         else if lead = 244 then 128 \<le> n \<and> n \<le> 143
         else 128 \<le> n \<and> n \<le> 191)"

fun valid_utf8 :: "string \<Rightarrow> bool" where
  "valid_utf8 [] = True"
| "valid_utf8 (a # s) =
     (let n = (of_char a :: nat)
      in if n < 128 then valid_utf8 s
         else if 194 \<le> n \<and> n \<le> 223 then
           (case s of b # t \<Rightarrow> cont b \<and> valid_utf8 t | _ \<Rightarrow> False)
         else if 224 \<le> n \<and> n \<le> 239 then
           (case s of b # c # t \<Rightarrow> second n b \<and> cont c \<and> valid_utf8 t | _ \<Rightarrow> False)
         else if 240 \<le> n \<and> n \<le> 244 then
           (case s of b # c # d # t \<Rightarrow> second n b \<and> cont c \<and> cont d \<and> valid_utf8 t
            | _ \<Rightarrow> False)
         else False)"

text \<open>\<open>s.split(c)\<close>: the pieces between the occurrences of \<open>c\<close>.\<close>

fun split_at :: "char \<Rightarrow> string \<Rightarrow> string list" where
  "split_at c [] = [[]]"
| "split_at c (x # xs) =
     (if x = c then [] # split_at c xs
      else (case split_at c xs of [] \<Rightarrow> [[x]] | w # ws \<Rightarrow> (x # w) # ws))"

text \<open>\<open>s.rfind('.')\<close>: the index of the last dot, or \<open>None\<close> for Python's \<open>-1\<close>.\<close>

fun rfind_dot :: "string \<Rightarrow> nat option" where
  "rfind_dot [] = None"
| "rfind_dot (x # xs) =
     (case rfind_dot xs of
        Some i \<Rightarrow> Some (Suc i)
      | None \<Rightarrow> if x = CHR ''.'' then Some 0 else None)"

section \<open>Paths (\<open>pathlib\<close>, POSIX flavour)\<close>

text \<open>
  A path is its root (\<open>''''\<close>, \<open>''/''\<close> or \<open>''//''\<close>) and the list of its
  components. The constructor drops empty components and \<open>.\<close>, keeps \<open>..\<close>.
\<close>

record path =
  anchor :: string
  parts :: "string list"

definition Path :: "string \<Rightarrow> path" where
  "Path s =
     \<lparr> anchor =
         (let k = length (takeWhile (\<lambda>c. c = CHR ''/'') s)
          in if k = 0 then '''' else if k = 2 then ''//'' else ''/''),
       parts = filter (\<lambda>x. x \<noteq> '''' \<and> x \<noteq> ''.'') (split_at CHR ''/'' s) \<rparr>"

fun join_sep :: "string list \<Rightarrow> string" where
  "join_sep [] = ''''"
| "join_sep [x] = x"
| "join_sep (x # y # ys) = x @ ''/'' @ join_sep (y # ys)"

definition str_path :: "path \<Rightarrow> string" where
  "str_path p =
     (if anchor p = '''' \<and> parts p = [] then ''.'' else anchor p @ join_sep (parts p))"

definition name :: "path \<Rightarrow> string" where
  "name p = (if parts p = [] then '''' else last (parts p))"

text \<open>
  \<open>suffix\<close> and \<open>stem\<close> cut the name at its last dot, unless that dot is the
  first or the last character of the name.
\<close>

definition suffix_of_name :: "string \<Rightarrow> string" where
  "suffix_of_name n =
     (case rfind_dot n of
        Some i \<Rightarrow> if 0 < i \<and> i < length n - 1 then drop i n else ''''
      | None \<Rightarrow> '''')"

definition stem_of_name :: "string \<Rightarrow> string" where
  "stem_of_name n =
     (case rfind_dot n of
        Some i \<Rightarrow> if 0 < i \<and> i < length n - 1 then take i n else n
      | None \<Rightarrow> n)"

definition suffix :: "path \<Rightarrow> string" where
  "suffix p = suffix_of_name (name p)"

definition stem :: "path \<Rightarrow> string" where
  "stem p = stem_of_name (name p)"

text \<open>\<open>p / s\<close> for a string \<open>s\<close>: an anchored right operand replaces the left one.\<close>

definition joinpath :: "path \<Rightarrow> string \<Rightarrow> path" where
  "joinpath p s =
     (let q = Path s in if anchor q \<noteq> '''' then q else p\<lparr>parts := parts p @ parts q\<rparr>)"

definition child :: "path \<Rightarrow> string \<Rightarrow> path" where
  "child p n = p\<lparr>parts := parts p @ [n]\<rparr>"

text \<open>Paths are ordered by their component lists, the root first when there is one.\<close>

definition cparts :: "path \<Rightarrow> string list" where
  "cparts p = (if anchor p = '''' then parts p else anchor p # parts p)"

section \<open>The file system\<close>

text \<open>
  A tree of directories and regular files; a regular file holds its bytes, a directory
  lists its entries in the order \<open>scandir\<close> reports them, under names a file system
  allows. There are no symbolic links and no permissions: every node that exists can be
  read and written.
\<close>

datatype node = File string | Dir "(string \<times> node) list"

fun get :: "node \<Rightarrow> string list \<Rightarrow> node option" where
  "get n [] = Some n"
| "get (File d) (c # cs) = None"
| "get (Dir es) (c # cs) = (case map_of es c of None \<Rightarrow> None | Some m \<Rightarrow> get m cs)"

fun put :: "node \<Rightarrow> string list \<Rightarrow> node \<Rightarrow> node" where
  "put n [] new = new"
| "put (File d) (c # cs) new = File d"
| "put (Dir es) (c # cs) new =
     (case map_of es c of
        None \<Rightarrow> if cs = [] then Dir (AList.update c new es) else Dir es
      | Some m \<Rightarrow> Dir (AList.update c (put m cs new) es))"

text \<open>
  The classes of exception that occur. Every one is a subclass of Python's
  \<open>Exception\<close>; \<open>KeyboardInterrupt\<close> and \<open>SystemExit\<close>, which are not, are
  raised by none of the operations modelled here. \<open>OSError\<close> stands for the plain
  class, which the interpreter raises for \<open>ENAMETOOLONG\<close>.
\<close>

datatype exn_class = FileNotFoundError | FileExistsError | IsADirectoryError
  | NotADirectoryError | OSError | ValueError | UnicodeEncodeError | Library_error string

text \<open>The limits of Linux on the length of a component and of a whole path.\<close>

definition NAME_MAX :: nat where
  "NAME_MAX = 255"

definition PATH_MAX :: nat where
  "PATH_MAX = 4096"

text \<open>
  Name resolution, as the kernel does it: every component is looked up in a directory
  that must exist (\<open>ENOENT\<close> when it does not, \<open>ENOTDIR\<close> when it is a regular
  file) and may not be longer than \<open>NAME_MAX\<close> (\<open>ENAMETOOLONG\<close>); \<open>..\<close> steps
  to the parent, and the root is its own parent. The result is the canonical location;
  its last component need not exist.
\<close>

definition dir_check :: "node \<Rightarrow> string list \<Rightarrow> exn_class option" where
  "dir_check t loc =
     (case get t loc of
        Some (Dir es) \<Rightarrow> None
      | Some (File d) \<Rightarrow> Some NotADirectoryError
      | None \<Rightarrow> Some FileNotFoundError)"

fun canon :: "node \<Rightarrow> string list \<Rightarrow> string list \<Rightarrow> exn_class + string list" where
  "canon t acc [] = Inr acc"
| "canon t acc (c # cs) =
     (case dir_check t acc of
        Some e \<Rightarrow> Inl e
      | None \<Rightarrow>
          if NAME_MAX < length c then Inl OSError
          else if c = ''..'' then canon t (butlast acc) cs
          else canon t (acc @ [c]) cs)"

definition start_dir :: "string list \<Rightarrow> path \<Rightarrow> string list" where
  "start_dir wd p = (if anchor p = '''' then wd else [])"

text \<open>
  A system call on the path \<open>p\<close> is given the string \<open>str(p)\<close>: the interpreter
  refuses a string with a null byte (\<open>ValueError\<close>), the kernel one of
  \<open>PATH_MAX\<close> bytes or more (\<open>ENAMETOOLONG\<close>).
\<close>

definition resolve :: "string list \<Rightarrow> node \<Rightarrow> path \<Rightarrow> exn_class + string list" where
  "resolve wd t p =
     (if CHR 0x00 \<in> set (str_path p) then Inl ValueError
      else if PATH_MAX \<le> length (str_path p) then Inl OSError
      else (case dir_check t (start_dir wd p) of
              Some e \<Rightarrow> Inl e
            | None \<Rightarrow> canon t (start_dir wd p) (parts p)))"

text \<open>\<open>os.stat(p)\<close>: the node at \<open>p\<close>, or the class of the error.\<close>

definition os_stat :: "string list \<Rightarrow> node \<Rightarrow> path \<Rightarrow> exn_class + node" where
  "os_stat wd t p =
     (case resolve wd t p of
        Inl e \<Rightarrow> Inl e
      | Inr loc \<Rightarrow> (case get t loc of None \<Rightarrow> Inl FileNotFoundError | Some n \<Rightarrow> Inr n))"

definition lookup :: "string list \<Rightarrow> node \<Rightarrow> path \<Rightarrow> node option" where
  "lookup wd t p = (case os_stat wd t p of Inl e \<Rightarrow> None | Inr n \<Rightarrow> Some n)"

text \<open>
  The errors on which \<open>exists\<close>, \<open>is_file\<close> and \<open>is_dir\<close> of \<open>pathlib\<close>
  answer false: \<open>ENOENT\<close> and \<open>ENOTDIR\<close> (with \<open>EBADF\<close> and \<open>ELOOP\<close>,
  which do not occur here) and \<open>ValueError\<close>. Any other error they raise again.
\<close>

definition ignore_error :: "exn_class \<Rightarrow> bool" where
  "ignore_error e \<longleftrightarrow> e = FileNotFoundError \<or> e = NotADirectoryError \<or> e = ValueError"

text \<open>What is at a location, without the contents of a directory.\<close>

datatype kind = Absent | Regular string | Directory

definition stat :: "node \<Rightarrow> string list \<Rightarrow> kind" where
  "stat t loc =
     (case get t loc of
        None \<Rightarrow> Absent
      | Some (File d) \<Rightarrow> Regular d
      | Some (Dir es) \<Rightarrow> Directory)"

definition dir_entries :: "string list \<Rightarrow> node \<Rightarrow> path \<Rightarrow> string list" where
  "dir_entries wd t p = (case lookup wd t p of Some (Dir es) \<Rightarrow> map fst es | _ \<Rightarrow> [])"

section \<open>Exceptions, the environment and the state\<close>

text \<open>An exception is its class and the text that \<open>str(e)\<close> gives.\<close>

datatype pyexn = Raise exn_class string

fun str_exn :: "pyexn \<Rightarrow> string" where
  "str_exn (Raise c msg) = msg"

text \<open>
  An open image, as far as the script looks at it: its colour mode, its size
  \<open>(width, height)\<close> and its pixel data.
\<close>

record image =
  img_mode :: string
  img_size :: "nat \<times> nat"
  img_data :: string

text \<open>
  The environment holds what the script does not control: the working directory, the
  two libraries, and the interpreter's treatment of text. \<open>pil_filename\<close> is the
  name under which \<open>Image.open\<close> opens the file of a \<open>Path\<close>, which is the path
  resolved; \<open>pil_open\<close> is \<open>Image.open\<close> on a regular file, given its path and
  its contents, \<open>pil_convert\<close>
  computes the pixel data of \<open>img.convert(mode)\<close>, and \<open>tesseract\<close> is
  \<open>pytesseract.image_to_string(img, config=...)\<close>; each may raise. \<open>py_repr\<close>
  is \<open>repr\<close> on a \<open>str\<close>, which quotes and escapes by the Unicode tables.
  \<open>stdout_encodes\<close> tells whether \<open>sys.stdout\<close>, with its encoding and its
  error handler, accepts a string, and \<open>stdout_error\<close> and \<open>utf8_error\<close> give the
  text of the \<open>UnicodeEncodeError\<close> of \<open>sys.stdout\<close> and of the strict UTF-8
  codec for a string they refuse.
\<close>

record env =
  cwd :: "string list"
  pil_filename :: "path \<Rightarrow> string"
  pil_open :: "path \<Rightarrow> string \<Rightarrow> pyexn + image"
  pil_convert :: "image \<Rightarrow> string \<Rightarrow> pyexn + string"
  tesseract :: "image \<Rightarrow> string \<Rightarrow> pyexn + string"
  py_repr :: "string \<Rightarrow> string"
  stdout_encodes :: "string \<Rightarrow> bool"
  stdout_error :: "string \<Rightarrow> string"
  utf8_error :: "string \<Rightarrow> string"

text \<open>
  The exception the interpreter raises for a failed system call on a file name: an
  \<open>OSError\<close> with the message of its \<open>errno\<close> and the \<open>repr\<close> of the file
  name, or the \<open>ValueError\<close> for a null byte. For a call on the path \<open>p\<close> the
  file name is \<open>str(p)\<close>.
\<close>

definition os_error_named :: "env \<Rightarrow> exn_class \<Rightarrow> string \<Rightarrow> pyexn" where
  "os_error_named E c filename =
     (if c = ValueError then Raise ValueError ''embedded null byte''
      else Raise c ((if c = FileNotFoundError then ''[Errno 2] No such file or directory: ''
                     else if c = FileExistsError then ''[Errno 17] File exists: ''
                     else if c = NotADirectoryError then ''[Errno 20] Not a directory: ''
                     else if c = IsADirectoryError then ''[Errno 21] Is a directory: ''
                     else ''[Errno 36] File name too long: '') @ py_repr E filename))"

definition os_error :: "env \<Rightarrow> exn_class \<Rightarrow> path \<Rightarrow> pyexn" where
  "os_error E c p = os_error_named E c (str_path p)"

text \<open>
  The state is what the script changes: the file system, the arguments of the calls of
  \<open>print\<close> that succeeded, the log records (level and message), and the directories
  made and the files written, with what was written; each in the order of the calls.
\<close>

datatype fs_op = Made_dir path | Wrote path string

record state =
  fs :: node
  stdout :: "string list"
  logs :: "(string \<times> string) list"
  ops :: "fs_op list"

type_synonym 'a io = "state \<Rightarrow> (pyexn + 'a) \<times> state"

definition io_return :: "'a \<Rightarrow> 'a io" where
  "io_return x = (\<lambda>s. (Inr x, s))"

definition io_raise :: "pyexn \<Rightarrow> 'a io" where
  "io_raise e = (\<lambda>s. (Inl e, s))"

definition io_bind :: "'a io \<Rightarrow> ('a \<Rightarrow> 'b io) \<Rightarrow> 'b io" where
  "io_bind m f = (\<lambda>s. case m s of (Inl e, s') \<Rightarrow> (Inl e, s') | (Inr x, s') \<Rightarrow> f x s')"

text \<open>\<open>try: m  except Exception as e: h e\<close>. The effects of \<open>m\<close> before it raised stay.\<close>

definition io_catch :: "'a io \<Rightarrow> (pyexn \<Rightarrow> 'a io) \<Rightarrow> 'a io" where
  "io_catch m h = (\<lambda>s. case m s of (Inl e, s') \<Rightarrow> h e s' | (Inr x, s') \<Rightarrow> (Inr x, s'))"

definition io_lift :: "pyexn + 'a \<Rightarrow> 'a io" where
  "io_lift r = (\<lambda>s. (r, s))"

text \<open>
  A call of the logger adds a record and never raises: the handler writes to
  \<open>sys.stderr\<close>, which escapes what it cannot encode, and reports its own failures
  there.
\<close>

definition logger :: "string \<Rightarrow> string \<Rightarrow> unit io" where
  "logger level msg = (\<lambda>s. (Inr (), s\<lparr>logs := logs s @ [(level, msg)]\<rparr>))"

text \<open>\<open>print(line)\<close> raises when \<open>sys.stdout\<close> cannot encode the line.\<close>

definition print :: "env \<Rightarrow> string \<Rightarrow> unit io" where
  "print E line =
     (\<lambda>s. if stdout_encodes E line then (Inr (), s\<lparr>stdout := stdout s @ [line]\<rparr>)
          else (Inl (Raise UnicodeEncodeError (stdout_error E line)), s))"

text \<open>
  \<open>exists\<close>, \<open>is_file\<close> and \<open>is_dir\<close>: a test on the result of \<open>os.stat\<close>.
\<close>

definition stat_test :: "env \<Rightarrow> (node \<Rightarrow> bool) \<Rightarrow> path \<Rightarrow> bool io" where
  "stat_test E test p =
     (\<lambda>s. (case os_stat (cwd E) (fs s) p of
              Inr n \<Rightarrow> Inr (test n)
            | Inl e \<Rightarrow> if ignore_error e then Inr False else Inl (os_error E e p), s))"

definition is_dir :: "node \<Rightarrow> bool" where
  "is_dir n = (case n of Dir es \<Rightarrow> True | File d \<Rightarrow> False)"

definition path_exists :: "env \<Rightarrow> path \<Rightarrow> bool io" where
  "path_exists E p = stat_test E (\<lambda>n. True) p"

definition path_is_file :: "env \<Rightarrow> path \<Rightarrow> bool io" where
  "path_is_file E p = stat_test E (\<lambda>n. \<not> is_dir n) p"

definition path_is_dir :: "env \<Rightarrow> path \<Rightarrow> bool io" where
  "path_is_dir E p = stat_test E is_dir p"

text \<open>
  \<open>Image.open(p)\<close>: the file is opened for reading, under its resolved name, and
  handed to the decoder.
\<close>

definition Image_open :: "env \<Rightarrow> path \<Rightarrow> image io" where
  "Image_open E p =
     (\<lambda>s. (case os_stat (cwd E) (fs s) p of
              Inl c \<Rightarrow> Inl (os_error_named E c (pil_filename E p))
            | Inr (Dir es) \<Rightarrow> Inl (os_error_named E IsADirectoryError (pil_filename E p))
            | Inr (File d) \<Rightarrow> pil_open E p d, s))"

text \<open>
  \<open>img.convert(m)\<close>: a new image of mode \<open>m\<close> and of the same size, when the
  conversion of the pixel data succeeds.
\<close>

definition convert :: "env \<Rightarrow> image \<Rightarrow> string \<Rightarrow> image io" where
  "convert E img m =
     io_lift (case pil_convert E img m of
                Inl e \<Rightarrow> Inl e
              | Inr px \<Rightarrow> Inr (img\<lparr>img_mode := m, img_data := px\<rparr>))"

definition image_to_string :: "env \<Rightarrow> image \<Rightarrow> string \<Rightarrow> string io" where
  "image_to_string E img config = io_lift (tesseract E img config)"

text \<open>
  \<open>with open(p, 'w', encoding='utf-8') as f\<close> and the calls \<open>f.write(chunk)\<close>
  for the chunks in turn: the file is created or emptied when it is opened; a chunk that
  is not well-formed UTF-8 raises, and the file keeps the chunks written before it.
\<close>

definition write_chunks :: "env \<Rightarrow> path \<Rightarrow> string list \<Rightarrow> unit io" where
  "write_chunks E p chunks =
     (\<lambda>s. case resolve (cwd E) (fs s) p of
             Inl c \<Rightarrow> (Inl (os_error E c p), s)
           | Inr loc \<Rightarrow>
               (case get (fs s) loc of
                  Some (Dir es) \<Rightarrow> (Inl (os_error E IsADirectoryError p), s)
                | _ \<Rightarrow>
                    (let written = concat (takeWhile valid_utf8 chunks);
                         s' = s\<lparr>fs := put (fs s) loc (File written),
                                 ops := ops s @ [Wrote p written]\<rparr>
                     in case dropWhile valid_utf8 chunks of
                          [] \<Rightarrow> (Inr (), s')
                        | bad # rest \<Rightarrow> (Inl (Raise UnicodeEncodeError (utf8_error E bad)), s'))))"

text \<open>
  \<open>p.mkdir(exist_ok=True)\<close>: the parents are not created, and \<open>FileExistsError\<close>
  is swallowed only when \<open>p\<close> is a directory already.
\<close>

definition mkdir_exist_ok :: "env \<Rightarrow> path \<Rightarrow> unit io" where
  "mkdir_exist_ok E p =
     (\<lambda>s. case resolve (cwd E) (fs s) p of
             Inl c \<Rightarrow> (Inl (os_error E c p), s)
           | Inr loc \<Rightarrow>
               (case get (fs s) loc of
                  Some (Dir es) \<Rightarrow> (Inr (), s)
                | Some (File d) \<Rightarrow> (Inl (os_error E FileExistsError p), s)
                | None \<Rightarrow> (Inr (), s\<lparr>fs := put (fs s) loc (Dir []),
                                      ops := ops s @ [Made_dir p]\<rparr>)))"

section \<open>Globbing (\<open>Path.glob\<close>)\<close>

text \<open>
  \<open>fnmatch\<close> on one name: \<open>*\<close> matches any run of characters, \<open>?\<close> one
  character, anything else itself; the match is case-sensitive and a leading dot is not
  special. Bracket expressions are not modelled: no pattern of the script has one.
\<close>

fun fnmatch :: "string \<Rightarrow> string \<Rightarrow> bool" where
  "fnmatch [] n = (n = [])"
| "fnmatch (p # ps) [] = (p = CHR ''*'' \<and> fnmatch ps [])"
| "fnmatch (p # ps) (c # cs) =
     (if p = CHR ''*'' then fnmatch ps (c # cs) \<or> fnmatch (p # ps) cs
      else (p = CHR ''?'' \<or> p = c) \<and> fnmatch ps cs)"

text \<open>
  The directories below and including \<open>p\<close>, each before its subdirectories, in the
  order of the directory listings.
\<close>

fun iterate_directories :: "path \<Rightarrow> node \<Rightarrow> (path \<times> node) list" where
  "iterate_directories p (File d) = []"
| "iterate_directories p (Dir es) =
     (p, Dir es) # concat (map (\<lambda>(n, m). iterate_directories (child p n) m) es)"

definition first_occurrences :: "'a list \<Rightarrow> 'a list" where
  "first_occurrences xs = rev (remdups (rev xs))"

text \<open>
  \<open>scandir(q)\<close> is a system call of its own, refused for a path of \<open>PATH_MAX\<close>
  bytes or more; the error is not among those the selectors swallow.
\<close>

definition scandir_check :: "path \<Rightarrow> (exn_class \<times> path) option" where
  "scandir_check q = (if PATH_MAX \<le> length (str_path q) then Some (OSError, q) else None)"

text \<open>The results of the parts of a generator, up to the first that raises.\<close>

fun gather :: "('e + 'a list) list \<Rightarrow> 'e + 'a list" where
  "gather [] = Inr []"
| "gather (Inl e # rs) = Inl e"
| "gather (Inr xs # rs) = (case gather rs of Inl e \<Rightarrow> Inl e | Inr ys \<Rightarrow> Inr (xs @ ys))"

text \<open>
  The selectors: for the component \<open>**\<close> the rest of the pattern is tried from every
  directory of the subtree, each of which is then listed for its subdirectories, and a
  path is yielded once; any other component is matched against the entries of the
  directory, which must be directories themselves when more components follow.
\<close>

fun select :: "string list \<Rightarrow> path \<Rightarrow> node \<Rightarrow> (exn_class \<times> path) + path list" where
  "select [] p n = Inr [p]"
| "select (pat # rest) p n =
     (if pat = ''**'' then
        (case gather (map (\<lambda>(q, m).
                 case select rest q m of
                   Inl e \<Rightarrow> Inl e
                 | Inr xs \<Rightarrow> (case scandir_check q of Some e \<Rightarrow> Inl e | None \<Rightarrow> Inr xs))
               (iterate_directories p n)) of
           Inl e \<Rightarrow> Inl e
         | Inr xs \<Rightarrow> Inr (first_occurrences xs))
      else
        (case scandir_check p of
           Some e \<Rightarrow> Inl e
         | None \<Rightarrow>
             (case n of
                File d \<Rightarrow> Inr []
              | Dir es \<Rightarrow>
                  gather (map (\<lambda>(c, m).
                    if (rest = [] \<or> is_dir m) \<and> fnmatch pat c then select rest (child p c) m
                    else Inr []) es))))"

text \<open>
  \<open>p.glob(pattern)\<close>, for a pattern that is relative and not empty, as those of the
  script are: nothing is yielded unless \<open>is_dir\<close> holds of \<open>p\<close>.
\<close>

definition glob :: "env \<Rightarrow> path \<Rightarrow> string \<Rightarrow> path list io" where
  "glob E p pattern =
     (\<lambda>s. (case os_stat (cwd E) (fs s) p of
              Inl e \<Rightarrow> if ignore_error e then Inr [] else Inl (os_error E e p)
            | Inr (File d) \<Rightarrow> Inr []
            | Inr (Dir es) \<Rightarrow>
                (case select (parts (Path pattern)) p (Dir es) of
                   Inl (c, q) \<Rightarrow> Inl (os_error E c q)
                 | Inr xs \<Rightarrow> Inr xs), s))"

section \<open>The extractor\<close>

record extraction_result =
  file_path :: string
  file_name :: string
  success :: bool
  text_field :: string
  error :: "string option"
  image_size :: "(nat \<times> nat) option"
  image_mode :: "string option"

text \<open>
  An \<open>ImageTextExtractor\<close> object. \<open>supported_formats\<close> is a Python set; the list
  fixes an order of iteration, which the script sorts away.
\<close>

record extractor =
  tesseract_config :: string
  supported_formats :: "string list"

definition ImageTextExtractor :: "string \<Rightarrow> extractor" where
  "ImageTextExtractor config =
     \<lparr> tesseract_config = config,
       supported_formats = [''.jpg'', ''.jpeg'', ''.png'', ''.tiff'', ''.bmp'', ''.gif''] \<rparr>"

text \<open>The argument \<open>Union[str, Path]\<close> and the call \<open>Path(image_path)\<close> on it.\<close>

datatype path_arg = Str string | P path

fun to_Path :: "path_arg \<Rightarrow> path" where
  "to_Path (Str s) = Path s"
| "to_Path (P p) = p"

text \<open>
  The body of the \<open>try\<close> of \<open>extract_text_from_image\<close>. The dictionary
  \<open>result\<close> is updated only after the last operation that can raise, so the handler
  always sees the initial one.
\<close>

definition extract_body :: "env \<Rightarrow> extractor \<Rightarrow> path \<Rightarrow> extraction_result
    \<Rightarrow> extraction_result io" where
  "extract_body E self image_path result =
     io_bind (path_exists E image_path) (\<lambda>ex.
       if \<not> ex then
         io_raise (Raise FileNotFoundError (''Image file not found: '' @ str_path image_path))
       else if lower (suffix image_path) \<notin> set (supported_formats self) then
         io_raise (Raise ValueError (''Unsupported image format: '' @ suffix image_path))
       else
         io_bind (Image_open E image_path) (\<lambda>img0.
         io_bind (if img_mode img0 \<noteq> ''RGB'' then convert E img0 ''RGB''
                  else io_return img0) (\<lambda>img.
         io_bind (image_to_string E img (tesseract_config self)) (\<lambda>extracted_text.
         io_bind (logger ''INFO'' (''Successfully extracted text from '' @ name image_path)) (\<lambda>u.
         io_return (result\<lparr> success := True,
                              text_field := strip extracted_text,
                              image_size := Some (img_size img),
                              image_mode := Some (img_mode img) \<rparr>))))))"

definition initial_result :: "path \<Rightarrow> extraction_result" where
  "initial_result image_path =
     \<lparr> file_path = str_path image_path,
       file_name = name image_path,
       success = False,
       text_field = '''',
       error = None,
       image_size = None,
       image_mode = None \<rparr>"

definition extract_text_from_image :: "env \<Rightarrow> extractor \<Rightarrow> path_arg
    \<Rightarrow> extraction_result io" where
  "extract_text_from_image E self image_path_arg =
     (let image_path = to_Path image_path_arg;
          result = initial_result image_path
      in io_catch (extract_body E self image_path result)
           (\<lambda>e. let error_msg = ''Error processing '' @ name image_path @ '': '' @ str_exn e
                in io_bind (logger ''ERROR'' error_msg) (\<lambda>u.
                   io_return (result\<lparr>error := Some error_msg\<rparr>))))"

text \<open>The loop over \<open>supported_formats\<close> of \<open>find_images_in_directory\<close>.\<close>

fun find_loop :: "env \<Rightarrow> path \<Rightarrow> string \<Rightarrow> string list \<Rightarrow> path list \<Rightarrow> path list io" where
  "find_loop E directory pattern [] image_files = io_return image_files"
| "find_loop E directory pattern (sfx # rest) image_files =
     io_bind (glob E directory (pattern @ sfx)) (\<lambda>found_lower.
     io_bind (glob E directory (pattern @ upper sfx)) (\<lambda>found_upper.
     find_loop E directory pattern rest (image_files @ found_lower @ found_upper)))"

definition find_images_in_directory :: "env \<Rightarrow> extractor \<Rightarrow> path_arg \<Rightarrow> bool
    \<Rightarrow> path list io" where
  "find_images_in_directory E self directory_arg recursive =
     (let directory = to_Path directory_arg;
          pattern = (if recursive then ''**/*'' else ''*'')
      in io_bind (find_loop E directory pattern (supported_formats self) []) (\<lambda>image_files.
         io_return (sort_key cparts image_files)))"

text \<open>\<open>str(n)\<close> for a natural number: its decimal digits.\<close>

fun str_nat :: "nat \<Rightarrow> string" where
  "str_nat n =
     (if n < 10 then [char_of (48 + n)] else str_nat (n div 10) @ [char_of (48 + n mod 10)])"

text \<open>The loop of \<open>batch_extract_text\<close>, with the counter of \<open>enumerate\<close>.\<close>

fun batch_loop :: "env \<Rightarrow> extractor \<Rightarrow> path list \<Rightarrow> nat \<Rightarrow> nat \<Rightarrow> extraction_result list
    \<Rightarrow> extraction_result list io" where
  "batch_loop E self [] i n results = io_return results"
| "batch_loop E self (image_file # rest) i n results =
     io_bind (logger ''INFO'' (''Processing '' @ str_nat i @ ''/'' @ str_nat n @ '': ''
                @ name image_file)) (\<lambda>u.
     io_bind (extract_text_from_image E self (P image_file)) (\<lambda>result.
     batch_loop E self rest (Suc i) n (results @ [result])))"

definition batch_extract_text :: "env \<Rightarrow> extractor \<Rightarrow> path_arg
    \<Rightarrow> extraction_result list io" where
  "batch_extract_text E self source_arg =
     (let source_path = to_Path source_arg
      in io_bind (path_exists E source_path) (\<lambda>ex.
           if \<not> ex then
             io_raise (Raise FileNotFoundError (''Source path not found: '' @ str_path source_path))
           else
             io_bind (path_is_file E source_path) (\<lambda>is_file.
               if is_file then
                 io_bind (extract_text_from_image E self (P source_path)) (\<lambda>result.
                 io_return [result])
               else
                 io_bind (find_images_in_directory E self (P source_path) True) (\<lambda>image_files.
                   if image_files = [] then
                     io_bind (logger ''WARNING'' (''No image files found in '' @ str_path source_path))
                       (\<lambda>u. io_return [])
                   else
                     io_bind (logger ''INFO'' (''Found '' @ str_nat (length image_files)
                                @ '' image files to process'')) (\<lambda>u.
                     batch_loop E self image_files 1 (length image_files) [])))))"

section \<open>The result sink\<close>

text \<open>
  Python values, as far as a result dictionary holds them; a dictionary lists its items
  in the order of insertion.
\<close>

datatype pyval = PNone | PBool bool | PInt int | PStr string | PTuple "pyval list"
  | PList "pyval list" | PDict "(string \<times> pyval) list"

text \<open>
  The encoder of \<open>json.dump(..., indent=2, ensure_ascii=False)\<close>, after
  \<open>json/encoder.py\<close>. \<open>py_encode_basestring\<close> escapes the backslash, the double
  quote and the control characters below U+0020, and leaves every other character,
  ASCII or not, as it is.
\<close>

definition hex_digit :: "nat \<Rightarrow> char" where
  "hex_digit n = (if n < 10 then char_of (48 + n) else char_of (87 + n))"

definition escape_char :: "char \<Rightarrow> string" where
  "escape_char c =
     (let n = (of_char c :: nat)
      in if n = 92 then [CHR 0x5C, CHR 0x5C]
         else if n = 34 then [CHR 0x5C, CHR 0x22]
         else if n = 8 then [CHR 0x5C, CHR ''b'']
         else if n = 12 then [CHR 0x5C, CHR ''f'']
         else if n = 10 then [CHR 0x5C, CHR ''n'']
         else if n = 13 then [CHR 0x5C, CHR ''r'']
         else if n = 9 then [CHR 0x5C, CHR ''t'']
         else if n < 32 then [CHR 0x5C, CHR ''u'', CHR ''0'', CHR ''0'',
                              hex_digit (n div 16), hex_digit (n mod 16)]
         else [c])"

definition py_encode_basestring :: "string \<Rightarrow> string" where
  "py_encode_basestring x = [CHR 0x22] @ concat (map escape_char x) @ [CHR 0x22]"

definition intstr :: "int \<Rightarrow> string" where
  "intstr i = (if i < 0 then CHR ''-'' # str_nat (nat (- i)) else str_nat (nat i))"

text \<open>The chunk of a value that is not a list, a tuple or a dictionary.\<close>

fun scalar :: "pyval \<Rightarrow> string option" where
  "scalar (PStr x) = Some (py_encode_basestring x)"
| "scalar PNone = Some ''null''"
| "scalar (PBool b) = Some (if b then ''true'' else ''false'')"
| "scalar (PInt i) = Some (intstr i)"
| "scalar (PTuple xs) = None"
| "scalar (PList xs) = None"
| "scalar (PDict kvs) = None"

definition newline_indent :: "nat \<Rightarrow> string" where
  "newline_indent level = CHR 0x0A # replicate (2 * level) CHR '' ''"

text \<open>
  The chunks that \<open>_iterencode\<close> yields, in order. \<open>list_loop\<close> and
  \<open>dict_loop\<close> are the loops of \<open>_iterencode_list\<close> and \<open>_iterencode_dict\<close>,
  at the level of their items, with the pending \<open>buf\<close> and the flag \<open>first\<close>.
\<close>

fun iterencode :: "pyval \<Rightarrow> nat \<Rightarrow> string list"
  and iterencode_list :: "pyval list \<Rightarrow> nat \<Rightarrow> string list"
  and list_loop :: "pyval list \<Rightarrow> string \<Rightarrow> nat \<Rightarrow> string list"
  and iterencode_dict :: "(string \<times> pyval) list \<Rightarrow> nat \<Rightarrow> string list"
  and dict_loop :: "(string \<times> pyval) list \<Rightarrow> bool \<Rightarrow> nat \<Rightarrow> string list" where
  "iterencode (PStr x) level = [py_encode_basestring x]"
| "iterencode PNone level = [''null'']"
| "iterencode (PBool b) level = [if b then ''true'' else ''false'']"
| "iterencode (PInt i) level = [intstr i]"
| "iterencode (PTuple xs) level = iterencode_list xs level"
| "iterencode (PList xs) level = iterencode_list xs level"
| "iterencode (PDict kvs) level = iterencode_dict kvs level"
| "iterencode_list [] level = [''[]'']"
| "iterencode_list (v # vs) level =
     list_loop (v # vs) (''['' @ newline_indent (Suc level)) (Suc level)
     @ [newline_indent level, '']'']"
| "list_loop [] buf level = []"
| "list_loop (v # vs) buf level =
     (case scalar v of
        Some chunk \<Rightarrow> [buf @ chunk]
      | None \<Rightarrow> buf # iterencode v level)
     @ list_loop vs ('','' @ newline_indent level) level"
| "iterencode_dict [] level = [''{}'']"
| "iterencode_dict (kv # kvs) level =
     [''{'', newline_indent (Suc level)] @ dict_loop (kv # kvs) True (Suc level)
     @ [newline_indent level, ''}'']"
| "dict_loop [] first level = []"
| "dict_loop ((k, v) # kvs) first level =
     (if first then [] else ['','' @ newline_indent level])
     @ [py_encode_basestring k, '': '']
     @ (case scalar v of Some chunk \<Rightarrow> [chunk] | None \<Rightarrow> iterencode v level)
     @ dict_loop kvs False level"

text \<open>
  The dictionary a result stands for, with its keys in the order of insertion; the
  sequence constructor of \<open>image_size\<close> is a parameter, \<open>PTuple\<close> in the script.
\<close>

definition result_items :: "(pyval list \<Rightarrow> pyval) \<Rightarrow> extraction_result
    \<Rightarrow> (string \<times> pyval) list" where
  "result_items seq r =
     [(''file_path'', PStr (file_path r)),
      (''file_name'', PStr (file_name r)),
      (''success'', PBool (success r)),
      (''text'', PStr (text_field r)),
      (''error'', (case error r of None \<Rightarrow> PNone | Some e \<Rightarrow> PStr e))]
     @ (case image_size r of
          None \<Rightarrow> []
        | Some (w, h) \<Rightarrow> [(''image_size'', seq [PInt (int w), PInt (int h)])])
     @ (case image_mode r of None \<Rightarrow> [] | Some m \<Rightarrow> [(''image_mode'', PStr m)])"

definition to_dict :: "extraction_result \<Rightarrow> pyval" where
  "to_dict r = PDict (result_items PTuple r)"

definition str_opt :: "string option \<Rightarrow> string" where
  "str_opt x = (case x of None \<Rightarrow> ''None'' | Some v \<Rightarrow> v)"

fun console_loop :: "env \<Rightarrow> extraction_result list \<Rightarrow> unit io" where
  "console_loop E [] = io_return ()"
| "console_loop E (result # rest) =
     io_bind (print E (CHR 0x0A # replicate 50 CHR ''='')) (\<lambda>u.
     io_bind (print E (''File: '' @ file_name result)) (\<lambda>u.
     io_bind (print E (replicate 50 CHR ''='')) (\<lambda>u.
     io_bind (if success result then
                io_bind (print E (text_field result)) (\<lambda>u.
                  if text_field result = '''' then print E ''(No text found)''
                  else io_return ())
              else print E (''ERROR: '' @ str_opt (error result))) (\<lambda>u.
     console_loop E rest))))"

definition text_filename :: "extraction_result \<Rightarrow> string" where
  "text_filename result = stem (Path (file_name result)) @ ''.txt''"

fun text_loop :: "env \<Rightarrow> path \<Rightarrow> extraction_result list \<Rightarrow> unit io" where
  "text_loop E output_path [] = io_return ()"
| "text_loop E output_path (result # rest) =
     io_bind (if success result \<and> text_field result \<noteq> '''' then
                (let text_filepath = joinpath output_path (text_filename result)
                 in write_chunks E text_filepath [text_field result])
              else io_return ()) (\<lambda>u.
     text_loop E output_path rest)"

definition save_results :: "env \<Rightarrow> extraction_result list \<Rightarrow> string \<Rightarrow> path option
    \<Rightarrow> unit io" where
  "save_results E results output_format output_path_arg =
     (if output_format = ''console'' then console_loop E results
      else if output_format = ''json'' then
        (let output_path = (case output_path_arg of
                              None \<Rightarrow> Path ''extracted_text_results.json''
                            | Some p \<Rightarrow> p)
         in io_bind (write_chunks E output_path
                       (iterencode (PList (map to_dict results)) 0)) (\<lambda>u.
            logger ''INFO'' (''Results saved to '' @ str_path output_path)))
      else if output_format = ''text'' then
        (let output_path = (case output_path_arg of
                              None \<Rightarrow> Path ''extracted_text''
                            | Some p \<Rightarrow> p)
         in io_bind (mkdir_exist_ok E output_path) (\<lambda>u.
            io_bind (text_loop E output_path results) (\<lambda>u.
            logger ''INFO'' (''Text files saved to '' @ str_path output_path))))
      else io_return ())"

section \<open>The command line\<close>

text \<open>
  The arguments as \<open>argparse\<close> delivers them: exactly one of \<open>--single\<close> and
  \<open>--batch\<close> was given, and \<open>format\<close> is one of the three choices. \<open>verbose\<close>
  only lowers the threshold of the log, below which the script logs nothing.
\<close>

record args =
  single :: "string option"
  batch :: bool
  source_dir :: string
  format :: string
  output_file :: "path option"
  output_dir :: "path option"
  tesseract_config_arg :: string
  verbose :: bool







section \<open>A concrete world\<close>

text \<open>
  A decoder that accepts every non-empty file as a greyscale image of 640 by 480, and an
  engine that reads the bytes of the file as its text; \<open>repr\<close> as it is on a string
  of letters, digits and dots, and a standard output that is strict UTF-8. The working
  directory \<open>/home\<close> holds the directory \<open>pics\<close>: an empty (undecodable)
  \<open>a.gif\<close>, a blank \<open>b.jpg\<close>, \<open>c.png\<close> reading HELLO, a text file,
  \<open>photo.Jpg\<close> and a subdirectory with \<open>d.PNG\<close>.
\<close>

definition example_env :: env where
  "example_env =
     \<lparr> cwd = [''home''],
       pil_filename = (\<lambda>p. if anchor p = '''' then ''/home/'' @ str_path p else str_path p),
       pil_open = (\<lambda>p b.
         if b = '''' then
           Inl (Raise (Library_error ''UnidentifiedImageError'') ''cannot identify image file'')
         else Inr \<lparr>img_mode = ''L'', img_size = (640, 480), img_data = b\<rparr>),
       pil_convert = (\<lambda>img m. Inr (img_data img)),
       tesseract = (\<lambda>img config. Inr (img_data img)),
       py_repr = (\<lambda>x. [CHR 0x27] @ x @ [CHR 0x27]),
       stdout_encodes = valid_utf8,
       stdout_error = (\<lambda>x. ''surrogates not allowed''),
       utf8_error = (\<lambda>x. ''surrogates not allowed'') \<rparr>"

definition example_pics :: node where
  "example_pics =
     Dir [(''notes.txt'', File ''n''),
          (''c.png'', File (''HELLO'' @ [CHR 0x0A])),
          (''sub'', Dir [(''d.PNG'', File ''DEEP'')]),
          (''a.gif'', File ''''),
          (''photo.Jpg'', File ''MIXED''),
          (''b.jpg'', File ''  '')]"

definition example_state :: state where
  "example_state =
     \<lparr> fs = Dir [(''home'', Dir [(''pics'', example_pics)])], stdout = [], logs = [],
       ops = [] \<rparr>"

definition default_extractor :: extractor where
  "default_extractor = ImageTextExtractor ''--oem 3 --psm 6''"

definition example_args :: args where
  "example_args =
     \<lparr> single = Some ''missing.png'', batch = False, source_dir = ''.'', format = ''console'',
       output_file = None, output_dir = None, tesseract_config_arg = ''--oem 3 --psm 6'',
       verbose = False \<rparr>"




text \<open>A name of 260 bytes, longer than a component may be.\<close>

definition long_name :: string where
  "long_name = replicate 256 CHR ''a'' @ ''.png''"

definition example_long_args :: args where
  "example_long_args = example_args\<lparr>single := Some long_name\<rparr>"

text \<open>The results of extracting \<open>pics/b.jpg\<close> and \<open>pics/c.png\<close> in that world.\<close>

definition blank_result :: extraction_result where
  "blank_result =
     \<lparr> file_path = ''pics/b.jpg'', file_name = ''b.jpg'', success = True, text_field = '''',
       error = None, image_size = Some (640, 480), image_mode = Some ''RGB'' \<rparr>"

definition hello_result :: extraction_result where
  "hello_result =
     \<lparr> file_path = ''pics/c.png'', file_name = ''c.png'', success = True,
       text_field = ''HELLO'', error = None, image_size = Some (640, 480),
       image_mode = Some ''RGB'' \<rparr>"

text \<open>The result for \<open>missing.png\<close>, and a second image of stem \<open>c\<close>.\<close>

definition missing_result :: extraction_result where
  "missing_result =
     \<lparr> file_path = ''missing.png'', file_name = ''missing.png'', success = False,
       text_field = '''',
       error = Some ''Error processing missing.png: Image file not found: missing.png'',
       image_size = None, image_mode = None \<rparr>"

definition world_result :: extraction_result where
  "world_result =
     \<lparr> file_path = ''pics/c.jpg'', file_name = ''c.jpg'', success = True,
       text_field = ''WORLD'', error = None, image_size = Some (640, 480),
       image_mode = Some ''RGB'' \<rparr>"

text \<open>The images the locator finds under \<open>pics\<close>, in its order.\<close>

definition example_images :: "path list" where
  "example_images =
     [\<lparr>anchor = '''', parts = [''pics'', ''a.gif'']\<rparr>,
      \<lparr>anchor = '''', parts = [''pics'', ''b.jpg'']\<rparr>,
      \<lparr>anchor = '''', parts = [''pics'', ''c.png'']\<rparr>,
      \<lparr>anchor = '''', parts = [''pics'', ''sub'', ''d.PNG'']\<rparr>]"

section \<open>The words of the specification, and what a run prints\<close>

text \<open>
  The invariant of a result: exactly one of: the text is populated and the error absent;
  or the error is populated, the text empty and \<open>success\<close> false.
\<close>

definition claimed_invariant :: "extraction_result \<Rightarrow> bool" where
  "claimed_invariant r \<longleftrightarrow>
     ((text_field r \<noteq> '''' \<and> error r = None) \<noteq>
      (error r \<noteq> None \<and> text_field r = '''' \<and> \<not> success r))"

text \<open>
  The cause that the result for a path reports when \<open>os.stat\<close> fails on it with the
  error \<open>e\<close>: the file was not found, or the error of the operating system itself
  when \<open>exists\<close> does not swallow it; and the failed result with a cause.
\<close>

definition absence_cause :: "env \<Rightarrow> exn_class \<Rightarrow> path \<Rightarrow> string" where
  "absence_cause E e p =
     (if ignore_error e then ''Image file not found: '' @ str_path p
      else str_exn (os_error E e p))"

definition failed_result :: "path \<Rightarrow> string \<Rightarrow> extraction_result" where
  "failed_result p cause =
     \<lparr> file_path = str_path p, file_name = name p, success = False, text_field = '''',
       error = Some (''Error processing '' @ name p @ '': '' @ cause),
       image_size = None, image_mode = None \<rparr>"

text \<open>
  The results with a file of their own in the text sink, in the words of the
  specification: successful, with text that is not empty once trimmed. \<open>written\<close> is
  the text that a run over the results leaves in the file named \<open>n\<close>: that of the
  last such result with this file name.
\<close>

definition writes_text :: "extraction_result \<Rightarrow> bool" where
  "writes_text r \<longleftrightarrow> success r \<and> strip (text_field r) \<noteq> ''''"

fun written :: "extraction_result list \<Rightarrow> string \<Rightarrow> string option" where
  "written [] n = None"
| "written (r # rs) n =
     (case written rs n of
        Some x \<Rightarrow> Some x
      | None \<Rightarrow> if writes_text r \<and> text_filename r = n then Some (text_field r) else None)"





section \<open>Properties of the strings\<close>

lemma strip_Nil: "strip [] = []"
  by (simp add: strip_def white_space_def)

lemma drop_ws_fix: "find (\<lambda>w. w \<noteq> [] \<and> prefix w (drop_ws ws s)) ws = None"
proof (induction ws s rule: drop_ws.induct)
  case (1 ws s)
  show ?case
  proof (cases "find (\<lambda>w. w \<noteq> [] \<and> prefix w s) ws")
    case None
    then show ?thesis by (subst drop_ws.simps) simp
  next
    case (Some w)
    with 1[OF Some] show ?thesis by (subst drop_ws.simps) simp
  qed
qed

lemma drop_ws_id: "find (\<lambda>w. w \<noteq> [] \<and> prefix w s) ws = None \<Longrightarrow> drop_ws ws s = s"
  by (subst drop_ws.simps) simp

lemma drop_ws_suffix: "Sublist.suffix (drop_ws ws s) s"
proof (induction ws s rule: drop_ws.induct)
  case (1 ws s)
  show ?case
  proof (cases "find (\<lambda>w. w \<noteq> [] \<and> prefix w s) ws")
    case None
    then show ?thesis by (subst drop_ws.simps) simp
  next
    case (Some w)
    have "Sublist.suffix (drop_ws ws (drop (length w) s)) (drop (length w) s)"
      by (rule 1[OF Some])
    then have "Sublist.suffix (drop_ws ws (drop (length w) s)) s"
      using suffix_drop suffix_order.trans by blast
    with Some show ?thesis by (subst drop_ws.simps) simp
  qed
qed

lemma find_None_prefix:
  assumes "find (\<lambda>w. w \<noteq> [] \<and> prefix w z) ws = None" and "prefix y z"
  shows "find (\<lambda>w. w \<noteq> [] \<and> prefix w y) ws = None"
  using assms by (auto simp: find_None_iff dest: prefix_order.trans)

lemma strip_strip: "strip (strip x) = strip x"
proof -
  let ?z = "drop_ws white_space x"
  let ?y = "strip x"
  have ry: "rev ?y = drop_ws (map rev white_space) (rev ?z)"
    by (simp add: strip_def)
  have "Sublist.suffix (rev ?y) (rev ?z)"
    unfolding ry by (rule drop_ws_suffix)
  then have "prefix ?y ?z"
    by (simp add: suffix_to_prefix)
  then have "drop_ws white_space ?y = ?y"
    by (intro drop_ws_id find_None_prefix[OF drop_ws_fix])
  moreover have "drop_ws (map rev white_space) (rev ?y) = rev ?y"
    unfolding ry by (intro drop_ws_id drop_ws_fix)
  ultimately show ?thesis
    by (simp add: strip_def[of "strip x"])
qed

section \<open>Properties of the file system\<close>

lemma dir_check_stat: "dir_check t loc = None \<longleftrightarrow> stat t loc = Directory"
  by (simp add: dir_check_def stat_def split: option.splits node.splits)

lemma get_leaf: "new = Dir [] \<or> (\<exists>d. new = File d) \<Longrightarrow> q \<noteq> [] \<Longrightarrow> get new q = None"
  by (cases q) auto

lemma map_of_update: "map_of (AList.update k v es) k' = (if k' = k then Some v else map_of es k')"
  by (simp add: update_conv')

lemma put_Dir: "\<exists>es'. put (Dir es) (c # cs) new = Dir es'"
  by (simp split: option.splits)

lemma stat_put_other:
  assumes "stat t loc \<noteq> Directory" and "new = Dir [] \<or> (\<exists>d. new = File d)"
    and "q \<noteq> loc"
  shows "stat (put t loc new) q = stat t q"
  using assms
proof (induction loc arbitrary: t q)
  case Nil
  then obtain d where t: "t = File d"
    by (cases t) (simp_all add: stat_def)
  from Nil have "q \<noteq> []" by simp
  then show ?case
    using Nil.prems(2) t by (cases q) (simp_all add: stat_def get_leaf)
next
  case (Cons c cs)
  show ?case
  proof (cases t)
    case (File d)
    then show ?thesis by simp
  next
    case (Dir es)
    show ?thesis
    proof (cases q)
      case Nil
      then show ?thesis
        using Dir put_Dir[of es c cs new] by (auto simp: stat_def simp del: put.simps)
    next
      case (Cons c' qs)
      show ?thesis
      proof (cases "map_of es c")
        case None
        show ?thesis
        proof (cases "cs = []")
          case True
          with None Dir Cons Cons.prems(2,3) show ?thesis
            by (auto simp: stat_def map_of_update get_leaf)
        next
          case False
          with None Dir show ?thesis by simp
        qed
      next
        case (Some m)
        have m: "stat m cs \<noteq> Directory"
          using Cons.prems(1) Dir Some by (simp add: stat_def)
        show ?thesis
        proof (cases "c' = c")
          case True
          then have "qs \<noteq> cs" using Cons.prems(3) Cons by simp
          from Cons.IH[OF m Cons.prems(2) this] show ?thesis
            using Dir Some Cons True by (simp add: stat_def map_of_update)
        next
          case False
          then show ?thesis
            using Dir Some Cons by (simp add: stat_def map_of_update)
        qed
      qed
    qed
  qed
qed

lemma get_put_same:
  assumes "stat t pre = Directory"
  shows "get (put t (pre @ [c]) new) (pre @ [c]) = Some new"
  using assms
proof (induction pre arbitrary: t)
  case Nil
  then obtain es where "t = Dir es"
    by (cases t) (simp_all add: stat_def)
  then show ?case
    by (simp add: map_of_update split: option.splits)
next
  case (Cons x pre)
  then obtain es where t: "t = Dir es"
    by (cases t) (simp_all add: stat_def)
  with Cons.prems obtain m where m: "map_of es x = Some m" "stat m pre = Directory"
    by (auto simp: stat_def split: option.splits)
  from Cons.IH[OF m(2)] show ?case
    using t m by (simp add: map_of_update)
qed

lemma stat_put_same:
  assumes "stat t pre = Directory"
  shows "stat (put t (pre @ [c]) new) (pre @ [c]) =
    (case new of File d \<Rightarrow> Regular d | Dir es \<Rightarrow> Directory)"
  using get_put_same[OF assms, of c new] by (simp add: stat_def)

lemma canon_mono:
  assumes "\<And>q. stat t q = Directory \<Longrightarrow> stat t' q = Directory"
    and "canon t acc cs = Inr l"
  shows "canon t' acc cs = Inr l"
  using assms(2)
proof (induction cs arbitrary: acc)
  case Nil
  then show ?case by simp
next
  case (Cons c cs)
  from Cons.prems have d: "dir_check t acc = None"
    by (auto split: option.splits)
  then have d': "dir_check t' acc = None"
    using assms(1) by (simp add: dir_check_stat)
  show ?case
    using Cons.prems Cons.IH d d' by (auto split: if_splits)
qed

lemma resolve_mono:
  assumes "\<And>q. stat t q = Directory \<Longrightarrow> stat t' q = Directory"
    and "resolve wd t p = Inr l"
  shows "resolve wd t' p = Inr l"
proof -
  from assms(2) have d: "dir_check t (start_dir wd p) = None"
    and c: "canon t (start_dir wd p) (parts p) = Inr l"
    and z: "CHR 0x00 \<notin> set (str_path p)" "\<not> PATH_MAX \<le> length (str_path p)"
    by (auto simp: resolve_def split: option.splits if_splits)
  from d have "dir_check t' (start_dir wd p) = None"
    using assms(1) by (simp add: dir_check_stat)
  with canon_mono[OF assms(1) c] z show ?thesis
    by (simp add: resolve_def)
qed

lemma canon_append:
  "canon t acc (xs @ ys) = (case canon t acc xs of Inl e \<Rightarrow> Inl e | Inr l \<Rightarrow> canon t l ys)"
  by (induction xs arbitrary: acc) (auto split: option.splits)

lemma get_append:
  "get t (xs @ ys) = (case get t xs of None \<Rightarrow> None | Some n \<Rightarrow> get n ys)"
proof (induction xs arbitrary: t)
  case Nil
  show ?case by simp
next
  case (Cons x xs)
  then show ?case
    by (cases t) (auto split: option.splits)
qed

lemma ancestor_dir:
  assumes "stat t (xs @ [y]) \<noteq> Absent"
  shows "stat t xs = Directory"
proof -
  from assms obtain n where n: "get t xs = Some n" "get n [y] \<noteq> None"
    by (auto simp: stat_def get_append split: option.splits)
  then show ?thesis
    by (cases n) (simp_all add: stat_def)
qed

lemma butlast_dir: "stat t acc = Directory \<Longrightarrow> stat t (butlast acc) = Directory"
proof (cases acc rule: rev_cases)
  case Nil
  then show "stat t acc = Directory \<Longrightarrow> stat t (butlast acc) = Directory" by simp
next
  case (snoc xs y)
  assume "stat t acc = Directory"
  with snoc ancestor_dir[of t xs y] show "stat t (butlast acc) = Directory"
    by simp
qed

lemma canon_parent:
  assumes "canon t acc cs = Inr l"
    and "stat t acc = Directory \<or> (acc \<noteq> [] \<and> stat t (butlast acc) = Directory)"
  shows "stat t l = Directory \<or> (l \<noteq> [] \<and> stat t (butlast l) = Directory)"
  using assms
proof (induction cs arbitrary: acc)
  case Nil
  then show ?case by simp
next
  case (Cons c cs)
  from Cons.prems(1) have d0: "dir_check t acc = None"
    by (auto split: option.splits)
  then have d: "stat t acc = Directory"
    by (simp add: dir_check_stat)
  from Cons.prems(1) d0 have len: "\<not> NAME_MAX < length c"
    by (auto split: if_splits)
  show ?case
  proof (cases "c = ''..''")
    case True
    with Cons.prems(1) d0 len have "canon t (butlast acc) cs = Inr l"
      by simp
    from Cons.IH[OF this] butlast_dir[OF d] show ?thesis by simp
  next
    case False
    with Cons.prems(1) d0 len have "canon t (acc @ [c]) cs = Inr l"
      by simp
    from Cons.IH[OF this] d show ?thesis by simp
  qed
qed

lemma resolve_parent:
  assumes "resolve wd t p = Inr l"
  shows "stat t l = Directory \<or> (l \<noteq> [] \<and> stat t (butlast l) = Directory)"
proof -
  from assms have d: "stat t (start_dir wd p) = Directory"
    and c: "canon t (start_dir wd p) (parts p) = Inr l"
    by (auto simp: resolve_def dir_check_stat[symmetric] split: option.splits if_splits)
  from canon_parent[OF c] d show ?thesis by simp
qed


lemma stat_put_leaf:
  assumes "resolve wd t p = Inr loc" and "stat t loc \<noteq> Directory"
    and "new = Dir [] \<or> (\<exists>d. new = File d)"
  shows "stat (put t loc new) q =
    (if q = loc then (case new of File d \<Rightarrow> Regular d | Dir es \<Rightarrow> Directory) else stat t q)"
proof (cases "q = loc")
  case True
  from resolve_parent[OF assms(1)] assms(2)
  have "loc \<noteq> []" "stat t (butlast loc) = Directory" by auto
  with stat_put_same[of t "butlast loc" "last loc" new] True show ?thesis
    by simp
next
  case False
  with stat_put_other[OF assms(2,3), of q] show ?thesis by simp
qed

lemma write_chunks_run:
  assumes "resolve (cwd E) (fs s) p = Inr loc" and "stat (fs s) loc \<noteq> Directory"
    and "valid_utf8 d"
  shows "write_chunks E p [d] s =
    (Inr (), s\<lparr>fs := put (fs s) loc (File d), ops := ops s @ [Wrote p d]\<rparr>)"
  using assms by (auto simp: write_chunks_def stat_def split: option.splits node.splits)

lemma mkdir_run:
  assumes "resolve (cwd E) (fs s) p = Inr loc"
  shows "stat (fs s) loc = Directory \<Longrightarrow> mkdir_exist_ok E p s = (Inr (), s)"
    and "stat (fs s) loc = Absent \<Longrightarrow>
         mkdir_exist_ok E p s =
           (Inr (), s\<lparr>fs := put (fs s) loc (Dir []), ops := ops s @ [Made_dir p]\<rparr>)"
  using assms by (auto simp: mkdir_exist_ok_def stat_def split: option.splits node.splits)

lemma split_at_no_sep: "x \<in> set (split_at c s) \<Longrightarrow> c \<notin> set x"
proof (induction s arbitrary: x)
  case Nil
  then show ?case by simp
next
  case (Cons a s)
  then show ?case
    by (cases "split_at c s") (auto split: if_splits)
qed

lemma split_at_plain: "c \<notin> set s \<Longrightarrow> split_at c s = [s]"
  by (induction s) auto

lemma name_no_sep: "CHR ''/'' \<notin> set (name (Path s))"
proof (cases "parts (Path s) = []")
  case True
  then show ?thesis by (simp add: name_def)
next
  case False
  then have "last (parts (Path s)) \<in> set (parts (Path s))"
    by simp
  then have "last (parts (Path s)) \<in> set (split_at CHR ''/'' s)"
    by (simp add: Path_def)
  with False split_at_no_sep show ?thesis
    by (simp add: name_def)
qed

lemma stem_of_name_subset: "set (stem_of_name n) \<subseteq> set n"
  by (auto simp: stem_of_name_def split: option.splits dest: in_set_takeD)

lemma text_filename_component:
  shows "Path (text_filename r) = \<lparr>anchor = '''', parts = [text_filename r]\<rparr>"
    and "text_filename r \<noteq> ''..''"
proof -
  let ?f = "text_filename r"
  have nosep: "CHR ''/'' \<notin> set ?f"
    using name_no_sep[of "file_name r"] stem_of_name_subset[of "name (Path (file_name r))"]
    by (auto simp: text_filename_def stem_def)
  have len: "4 \<le> length ?f"
    by (simp add: text_filename_def)
  then have ne: "?f \<noteq> ''''" "?f \<noteq> ''.''"
    by auto
  have tw: "takeWhile (\<lambda>c. c = CHR ''/'') ?f = []"
    using nosep ne by (cases ?f) auto
  show "Path ?f = \<lparr>anchor = '''', parts = [?f]\<rparr>"
    using ne by (simp add: Path_def tw split_at_plain[OF nosep])
  show "?f \<noteq> ''..''"
    using len by auto
qed

lemma resolve_join:
  assumes "resolve wd t out = Inr dloc" and "stat t dloc = Directory"
    and "length (text_filename r) \<le> NAME_MAX"
    and "CHR 0x00 \<notin> set (str_path (joinpath out (text_filename r)))"
    and "length (str_path (joinpath out (text_filename r))) < PATH_MAX"
  shows "resolve wd t (joinpath out (text_filename r)) = Inr (dloc @ [text_filename r])"
proof -
  from assms(1) have d: "dir_check t (start_dir wd out) = None"
    and c: "canon t (start_dir wd out) (parts out) = Inr dloc"
    by (auto simp: resolve_def split: option.splits if_splits)
  have j: "joinpath out (text_filename r) = out\<lparr>parts := parts out @ [text_filename r]\<rparr>"
    by (simp add: joinpath_def text_filename_component(1) Let_def)
  have dd: "dir_check t dloc = None"
    using assms(2) by (simp add: dir_check_stat)
  have "canon t (start_dir wd out) (parts out @ [text_filename r]) = Inr (dloc @ [text_filename r])"
    using c dd text_filename_component(2)[of r] assms(3)
    by (simp add: canon_append)
  with d assms(4,5) show ?thesis
    by (simp add: j resolve_def start_dir_def)
qed

section \<open>Properties of the extractor\<close>

lemma extract_body_Inr:
  assumes "extract_body E self p r0 s = (Inr r, s')"
  shows "success r" and "error r = error r0" and "image_mode r = Some ''RGB''"
    and "image_size r \<noteq> None" and "text_field r \<in> range strip"
    and "file_path r = file_path r0" and "file_name r = file_name r0"
    and "lookup (cwd E) (fs s) p \<noteq> None"
    and "lower (suffix p) \<in> set (supported_formats self)"
    and "fs s' = fs s" and "stdout s' = stdout s"
  using assms
  by (auto simp: extract_body_def io_bind_def io_raise_def io_return_def io_lift_def
      path_exists_def stat_test_def lookup_def Image_open_def convert_def image_to_string_def logger_def
      split: if_splits sum.splits prod.splits option.splits node.splits)

lemma extract_body_Inl:
  assumes "extract_body E self p r0 s = (Inl e, s')"
  shows "s' = s"
  using assms
  by (auto simp: extract_body_def io_bind_def io_raise_def io_return_def io_lift_def
      path_exists_def stat_test_def lookup_def Image_open_def convert_def image_to_string_def logger_def
      split: if_splits sum.splits prod.splits option.splits node.splits)

lemma extract_body_missing:
  "os_stat (cwd E) (fs s) p = Inl e \<Longrightarrow>
   extract_body E self p r0 s =
     (Inl (if ignore_error e
           then Raise FileNotFoundError (''Image file not found: '' @ str_path p)
           else os_error E e p), s)"
  by (simp add: extract_body_def io_bind_def io_raise_def path_exists_def stat_test_def)

lemma extract_total:
  "\<exists>r s'. extract_text_from_image E self a s = (Inr r, s')"
  by (cases "extract_body E self (to_Path a) (initial_result (to_Path a)) s")
     (auto simp: extract_text_from_image_def io_catch_def io_bind_def io_return_def logger_def
        Let_def split: sum.splits)

lemma extract_result_cases:
  assumes "extract_text_from_image E self a s = (Inr r, s')"
  shows "file_path r = str_path (to_Path a) \<and> file_name r = name (to_Path a) \<and>
    fs s' = fs s \<and> stdout s' = stdout s \<and>
    ((success r \<and> error r = None \<and> image_mode r = Some ''RGB'' \<and>
        image_size r \<noteq> None \<and> text_field r \<in> range strip) \<or>
     (\<not> success r \<and> (\<exists>e. error r = Some (''Error processing '' @ name (to_Path a) @ '': '' @ str_exn e))
        \<and> text_field r = '''' \<and> image_size r = None \<and> image_mode r = None))"
proof (cases "extract_body E self (to_Path a) (initial_result (to_Path a)) s")
  case (Pair x s1)
  show ?thesis
  proof (cases x)
    case (Inl e)
    have "s1 = s"
      using extract_body_Inl Pair Inl by blast
    with Inl Pair assms show ?thesis
      by (auto simp: extract_text_from_image_def io_catch_def io_bind_def io_return_def
          logger_def Let_def initial_result_def)
  next
    case (Inr r1)
    with Pair assms have "r = r1" "s' = s1"
      by (simp_all add: extract_text_from_image_def io_catch_def Let_def)
    with extract_body_Inr[OF Pair[unfolded Inr]] show ?thesis
      by (simp add: initial_result_def)
  qed
qed

lemma extract_trimmed:
  assumes "extract_text_from_image E self a s = (Inr r, s')"
  shows "strip (text_field r) = text_field r"
  using extract_result_cases[OF assms] strip_strip strip_Nil by auto

lemma extract_missing:
  assumes "os_stat (cwd E) (fs s) (to_Path a) = Inl e"
  shows "extract_text_from_image E self a s =
    (Inr (failed_result (to_Path a) (absence_cause E e (to_Path a))),
     s\<lparr>logs := logs s @ [(''ERROR'', ''Error processing '' @ name (to_Path a) @ '': ''
                             @ absence_cause E e (to_Path a))]\<rparr>)"
  using assms
  by (simp add: extract_text_from_image_def io_catch_def Let_def extract_body_missing
      io_bind_def logger_def io_return_def failed_result_def absence_cause_def
      initial_result_def)

text \<open>
  Claim C1, as stated, fails: a name of 260 bytes does not exist, and the result for it
  reports that the file name is too long, which \<open>exists\<close> raised, not that the file
  was not found.
\<close>

theorem extract_long_name_counterexample:
  "lookup (cwd example_env) (fs example_state) (to_Path (Str long_name)) = None \<and>
   fst (extract_text_from_image example_env default_extractor (Str long_name) example_state)
     = Inr (failed_result (Path long_name)
             (''[Errno 36] File name too long: '' @ [CHR 0x27] @ long_name @ [CHR 0x27])) \<and>
   failed_result (Path long_name)
     (''[Errno 36] File name too long: '' @ [CHR 0x27] @ long_name @ [CHR 0x27])
     \<noteq> failed_result (Path long_name) (''Image file not found: '' @ long_name)"
  by code_simp

text \<open>
  Claim C1, amended. For every path argument and every state,
  \<open>extract_text_from_image\<close> returns a result and raises nothing: whatever the body of
  its \<open>try\<close> raises is turned into a failed result. For a path that does not exist,
  that is when \<open>os.stat\<close> fails on it, the result has \<open>success\<close> false; its error
  message names the file-not-found cause when \<open>exists\<close> answers false, and carries
  the error of the operating system when \<open>exists\<close> raises it.
\<close>

theorem extract_text_from_image_never_raises:
  "\<exists>r s'. extract_text_from_image E self a s = (Inr r, s') \<and>
     (\<forall>e. os_stat (cwd E) (fs s) (to_Path a) = Inl e \<longrightarrow>
        \<not> success r \<and>
        error r = Some (''Error processing '' @ name (to_Path a) @ '': '' @
                        (if ignore_error e
                         then ''Image file not found: '' @ str_path (to_Path a)
                         else str_exn (os_error E e (to_Path a)))))"
proof -
  obtain r s' where run: "extract_text_from_image E self a s = (Inr r, s')"
    using extract_total by blast
  have "\<not> success r \<and>
        error r = Some (''Error processing '' @ name (to_Path a) @ '': '' @
                        (if ignore_error e
                         then ''Image file not found: '' @ str_path (to_Path a)
                         else str_exn (os_error E e (to_Path a))))"
    if "os_stat (cwd E) (fs s) (to_Path a) = Inl e" for e
    using extract_missing[OF that, of self] run
    by (simp add: failed_result_def absence_cause_def)
  with run show ?thesis
    by (intro exI[of _ r] exI[of _ s']) simp
qed

text \<open>
  In the concrete world \<open>missing.png\<close> is not found, and \<open>os.stat\<close> refuses the
  name of 260 bytes.
\<close>

theorem extract_text_from_image_never_raises_witness:
  "os_stat (cwd example_env) (fs example_state) (to_Path (Str ''missing.png''))
     = Inl FileNotFoundError \<and>
   (\<exists>r s'. extract_text_from_image example_env default_extractor (Str ''missing.png'')
              example_state = (Inr r, s') \<and>
      \<not> success r \<and>
      error r = Some ''Error processing missing.png: Image file not found: missing.png'') \<and>
   os_stat (cwd example_env) (fs example_state) (to_Path (Str long_name)) = Inl OSError \<and>
   (\<exists>r s'. extract_text_from_image example_env default_extractor (Str long_name)
              example_state = (Inr r, s') \<and>
      \<not> success r \<and>
      error r = Some (''Error processing '' @ long_name @ '': [Errno 36] File name too long: ''
                      @ [CHR 0x27] @ long_name @ [CHR 0x27]))"
proof -
  have missing: "os_stat (cwd example_env) (fs example_state) (to_Path (Str ''missing.png''))
      = Inl FileNotFoundError"
    by code_simp
  have long: "os_stat (cwd example_env) (fs example_state) (to_Path (Str long_name))
      = Inl OSError"
    by code_simp
  have nm: "name (to_Path (Str ''missing.png'')) = ''missing.png''"
    and st: "str_path (to_Path (Str ''missing.png'')) = ''missing.png''"
    and ig: "ignore_error FileNotFoundError" "\<not> ignore_error OSError"
    and ln: "name (Path long_name) = long_name"
    and ms: "str_exn (os_error example_env OSError (Path long_name))
      = ''[Errno 36] File name too long: '' @ [CHR 0x27] @ long_name @ [CHR 0x27]"
    by code_simp+
  have first: "\<exists>r s'. extract_text_from_image example_env default_extractor (Str ''missing.png'')
              example_state = (Inr r, s') \<and>
      \<not> success r \<and>
      error r = Some ''Error processing missing.png: Image file not found: missing.png''"
    using missing ig
      extract_text_from_image_never_raises[of example_env default_extractor
        "Str ''missing.png''" example_state]
    unfolding nm st by auto
  have second: "\<exists>r s'. extract_text_from_image example_env default_extractor (Str long_name)
              example_state = (Inr r, s') \<and>
      \<not> success r \<and>
      error r = Some (''Error processing '' @ long_name @ '': [Errno 36] File name too long: ''
                      @ [CHR 0x27] @ long_name @ [CHR 0x27])"
    using long ig
      extract_text_from_image_never_raises[of example_env default_extractor
        "Str long_name" example_state]
    by (auto simp: ln ms)
  show ?thesis
    using missing long first second by blast
qed

text \<open>
  Claim C2, as stated, fails: a blank image is extracted with success, no error and an
  empty text, which is neither of the two cases of the claimed invariant.
\<close>

theorem blank_image_counterexample:
  "fst (extract_text_from_image example_env default_extractor (Str ''pics/b.jpg'') example_state)
     = Inr blank_result \<and> \<not> claimed_invariant blank_result"
proof
  show "fst (extract_text_from_image example_env default_extractor (Str ''pics/b.jpg'')
          example_state) = Inr blank_result"
    by code_simp
  show "\<not> claimed_invariant blank_result"
    by (simp add: claimed_invariant_def blank_result_def)
qed

text \<open>
  Claim C2, amended. For every result returned by \<open>extract_text_from_image\<close>, the
  error is present iff \<open>success\<close> is false, and exactly one of the following holds:
  \<open>success\<close> is true and the error absent (the text may be empty), or the error is
  populated, the text empty and \<open>success\<close> false.
\<close>

theorem extraction_result_invariant:
  assumes "extract_text_from_image E self a s = (Inr r, s')"
  shows "(error r \<noteq> None \<longleftrightarrow> \<not> success r) \<and>
         ((success r \<and> error r = None) \<noteq>
          (error r \<noteq> None \<and> text_field r = '''' \<and> \<not> success r))"
  using extract_result_cases[OF assms] by auto

text \<open>The amended invariant at the blank image.\<close>

theorem extraction_result_invariant_witness:
  "extract_text_from_image example_env default_extractor (Str ''pics/b.jpg'') example_state
     = (Inr blank_result,
        example_state\<lparr>logs := [(''INFO'', ''Successfully extracted text from b.jpg'')]\<rparr>) \<and>
   (error blank_result \<noteq> None \<longleftrightarrow> \<not> success blank_result) \<and>
   ((success blank_result \<and> error blank_result = None) \<noteq>
    (error blank_result \<noteq> None \<and> text_field blank_result = '''' \<and> \<not> success blank_result))"
proof -
  have run: "extract_text_from_image example_env default_extractor (Str ''pics/b.jpg'')
      example_state = (Inr blank_result,
        example_state\<lparr>logs := [(''INFO'', ''Successfully extracted text from b.jpg'')]\<rparr>)"
    by code_simp
  show ?thesis
    using run extraction_result_invariant[OF run] by (simp add: blank_result_def)
qed

text \<open>
  Claim C10. Every successful result records the colour mode \<open>RGB\<close>, whatever the
  mode of the image as opened: the mode recorded is the one after the conversion.
\<close>

theorem image_mode_is_RGB:
  assumes "extract_text_from_image E self a s = (Inr r, s')" and "success r"
  shows "image_mode r = Some ''RGB''"
  using extract_result_cases[OF assms(1)] assms(2) by auto

text \<open>The image \<open>pics/c.png\<close> is opened in mode \<open>L\<close> and recorded as \<open>RGB\<close>.\<close>

theorem image_mode_is_RGB_witness:
  "extract_text_from_image example_env default_extractor (Str ''pics/c.png'') example_state
     = (Inr hello_result,
        example_state\<lparr>logs := [(''INFO'', ''Successfully extracted text from c.png'')]\<rparr>) \<and>
   success hello_result \<and> image_mode hello_result = Some ''RGB''"
proof -
  have run: "extract_text_from_image example_env default_extractor (Str ''pics/c.png'')
      example_state = (Inr hello_result,
        example_state\<lparr>logs := [(''INFO'', ''Successfully extracted text from c.png'')]\<rparr>)"
    by code_simp
  have ok: "success hello_result"
    by (simp add: hello_result_def)
  show ?thesis
    using run ok image_mode_is_RGB[OF run ok] by simp
qed

section \<open>Properties of the locator and of the orchestrator\<close>

lemma io_bind_state:
  assumes "\<And>s. snd (m s) = s" and "\<And>x s. snd (f x s) = s"
  shows "snd (io_bind m f s) = s"
  using assms(1)[of s] assms(2)
  by (cases "m s") (auto simp: io_bind_def split: sum.splits)

lemma glob_state: "snd (glob E p pat s) = s"
  by (simp add: glob_def)

lemma find_loop_state: "snd (find_loop E d pat sfxs acc s) = s"
proof (induction sfxs arbitrary: acc s)
  case Nil
  show ?case by (simp add: io_return_def)
next
  case (Cons x sfxs)
  show ?case
    unfolding find_loop.simps
    by (intro io_bind_state glob_state Cons.IH)
qed

lemma find_images_state: "snd (find_images_in_directory E self a recursive s) = s"
  unfolding find_images_in_directory_def Let_def
  by (intro io_bind_state find_loop_state) (simp add: io_return_def)

lemma glob_missing:
  "os_stat (cwd E) (fs s) p = Inl e \<Longrightarrow>
   glob E p pat s = (if ignore_error e then Inr [] else Inl (os_error E e p), s)"
  by (simp add: glob_def)

lemma find_loop_missing:
  assumes "os_stat (cwd E) (fs s) d = Inl e"
  shows "find_loop E d pat sfxs acc s =
    (if ignore_error e \<or> sfxs = [] then Inr acc else Inl (os_error E e d), s)"
  by (induction sfxs arbitrary: acc)
     (simp_all add: io_return_def io_bind_def glob_missing[OF assms])

lemma find_images_missing:
  assumes "os_stat (cwd E) (fs s) (to_Path a) = Inl e"
  shows "find_images_in_directory E self a recursive s =
    (if ignore_error e \<or> supported_formats self = [] then Inr []
     else Inl (os_error E e (to_Path a)), s)"
  by (simp add: find_images_in_directory_def Let_def io_bind_def io_return_def
      find_loop_missing[OF assms])

lemma batch_missing:
  assumes "os_stat (cwd E) (fs s) (to_Path a) = Inl e"
  shows "batch_extract_text E self a s =
    (Inl (if ignore_error e
          then Raise FileNotFoundError (''Source path not found: '' @ str_path (to_Path a))
          else os_error E e (to_Path a)), s)"
  using assms
  by (simp add: batch_extract_text_def Let_def io_bind_def path_exists_def stat_test_def
      io_raise_def)

lemma extract_fs_only:
  assumes "fs s1 = fs s2"
  shows "fst (extract_text_from_image E self a s1) = fst (extract_text_from_image E self a s2)"
  using assms
  by (auto simp: extract_text_from_image_def extract_body_def io_catch_def io_bind_def
      io_raise_def io_return_def io_lift_def path_exists_def stat_test_def Image_open_def convert_def
      image_to_string_def logger_def Let_def
      split: if_splits sum.splits prod.splits option.splits node.splits)


lemma extract_run:
  "\<exists>r s'. extract_text_from_image E self a s = (Inr r, s') \<and> fs s' = fs s
      \<and> stdout s' = stdout s"
  using extract_total[of E self a s] extract_result_cases[of E self a s] by blast

lemma batch_loop_run:
  "\<exists>rs s'. batch_loop E self files i n acc s = (Inr (acc @ rs), s') \<and> fs s' = fs s \<and>
     stdout s' = stdout s \<and>
     map Inr rs = map (\<lambda>f. fst (extract_text_from_image E self (P f) s)) files"
proof (induction files arbitrary: i acc s)
  case Nil
  show ?case by (simp add: io_return_def)
next
  case (Cons f files)
  let ?s0 = "s\<lparr>logs := logs s @ [(''INFO'', ''Processing '' @ str_nat i @ ''/'' @ str_nat n
                @ '': '' @ name f)]\<rparr>"
  obtain r s1 where r: "extract_text_from_image E self (P f) ?s0 = (Inr r, s1)"
    and s1: "fs s1 = fs ?s0" "stdout s1 = stdout ?s0"
    using extract_run by blast
  from Cons.IH[of "Suc i" "acc @ [r]" s1]
  obtain rs s' where rest: "batch_loop E self files (Suc i) n (acc @ [r]) s1 = (Inr ((acc @ [r]) @ rs), s')"
    and s': "fs s' = fs s1" "stdout s' = stdout s1"
    and rs: "map Inr rs = map (\<lambda>f. fst (extract_text_from_image E self (P f) s1)) files"
    by blast
  have same: "fst (extract_text_from_image E self (P g) s1) = fst (extract_text_from_image E self (P g) s)" for g
    using s1 by (intro extract_fs_only) simp
  have hd: "Inr r = fst (extract_text_from_image E self (P f) s)"
    using r extract_fs_only[of ?s0 s E self "P f"] by simp
  have "batch_loop E self (f # files) i n acc s = (Inr (acc @ (r # rs)), s')"
    using r rest by (simp add: io_bind_def logger_def)
  moreover have "map Inr (r # rs) = map (\<lambda>f. fst (extract_text_from_image E self (P f) s)) (f # files)"
    using hd rs same by simp
  moreover have "fs s' = fs s" "stdout s' = stdout s"
    using s' s1 by simp_all
  ultimately show ?case by blast
qed

lemma map_Inr_length: "map Inr rs = map g xs \<Longrightarrow> length rs = length xs"
  by (metis length_map)

text \<open>
  Claim C3. For a source that is an existing directory in which the locator finds the
  images \<open>image_files\<close>, \<open>batch_extract_text\<close> returns, without raising, as
  many results as there are images; the k-th result is what
  \<open>extract_text_from_image\<close> returns for the k-th image, failed or not, so no
  failure aborts or skips a later image.
\<close>

theorem batch_extract_text_one_result_per_image:
  assumes "lookup (cwd E) (fs s) (to_Path src) = Some (Dir es)"
    and "find_images_in_directory E self (P (to_Path src)) True s = (Inr image_files, s1)"
  shows "\<exists>results s'. batch_extract_text E self src s = (Inr results, s') \<and>
           length results = length image_files \<and>
           map Inr results = map (\<lambda>f. fst (extract_text_from_image E self (P f) s)) image_files \<and>
           map file_path results = map str_path image_files"
proof -
  have s1: "s1 = s"
    using find_images_state[of E self "P (to_Path src)" True s] assms(2) by simp
  have pre: "path_exists E (to_Path src) s = (Inr True, s)"
    "path_is_file E (to_Path src) s = (Inr False, s)"
    using assms(1)
    by (simp_all add: path_exists_def path_is_file_def stat_test_def lookup_def is_dir_def
        split: sum.splits)
  show ?thesis
  proof (cases "image_files = []")
    case True
    then show ?thesis
      using pre assms(2) s1
      by (simp add: batch_extract_text_def Let_def io_bind_def io_return_def logger_def)
  next
    case False
    let ?s0 = "s\<lparr>logs := logs s @ [(''INFO'', ''Found '' @ str_nat (length image_files)
                                @ '' image files to process'')]\<rparr>"
    obtain rs s' where run: "batch_loop E self image_files 1 (length image_files) [] ?s0 = (Inr ([] @ rs), s')"
      and rs: "map Inr rs = map (\<lambda>f. fst (extract_text_from_image E self (P f) ?s0)) image_files"
      using batch_loop_run by blast
    have same: "fst (extract_text_from_image E self (P g) ?s0) = fst (extract_text_from_image E self (P g) s)" for g
      by (intro extract_fs_only) simp
    have eq: "map Inr rs = map (\<lambda>f. fst (extract_text_from_image E self (P f) s)) image_files"
      using rs same by simp
    have fp: "map file_path rs = map str_path image_files"
    proof (rule nth_equalityI)
      show len: "length (map file_path rs) = length (map str_path image_files)"
        using map_Inr_length[OF eq] by simp
      fix k assume "k < length (map file_path rs)"
      then have k: "k < length rs" "k < length image_files" using len by simp_all
      have "Inr (rs ! k) = fst (extract_text_from_image E self (P (image_files ! k)) s)"
        using arg_cong[OF eq, of "\<lambda>xs. xs ! k"] k by simp
      moreover obtain r t where rt: "extract_text_from_image E self (P (image_files ! k)) s = (Inr r, t)"
        using extract_total by blast
      ultimately have "r = rs ! k" by simp
      with extract_result_cases[OF rt] k show "map file_path rs ! k = map str_path image_files ! k"
        by simp
    qed
    have "batch_extract_text E self src s = (Inr rs, s')"
      using pre assms(2) s1 False run
      by (simp add: batch_extract_text_def Let_def io_bind_def io_return_def logger_def)
    with eq fp map_Inr_length[OF eq] show ?thesis by blast
  qed
qed


text \<open>Four images under \<open>pics\<close>, the first of which cannot be decoded.\<close>

theorem batch_extract_text_one_result_per_image_witness:
  "lookup (cwd example_env) (fs example_state) (to_Path (Str ''pics'')) = Some example_pics \<and>
   find_images_in_directory example_env default_extractor (P (to_Path (Str ''pics''))) True
     example_state = (Inr example_images, example_state) \<and>
   (\<exists>results s'.
      batch_extract_text example_env default_extractor (Str ''pics'') example_state
        = (Inr results, s') \<and>
      length results = length example_images \<and>
      map Inr results = map (\<lambda>f. fst (extract_text_from_image example_env default_extractor
                                     (P f) example_state)) example_images \<and>
      map file_path results = map str_path example_images)"
proof -
  have dir: "lookup (cwd example_env) (fs example_state) (to_Path (Str ''pics'')) = Some example_pics"
    by code_simp
  have found: "find_images_in_directory example_env default_extractor (P (to_Path (Str ''pics'')))
      True example_state = (Inr example_images, example_state)"
    by code_simp
  show ?thesis
    using dir found
      batch_extract_text_one_result_per_image[OF dir[unfolded example_pics_def] found]
    by simp
qed

text \<open>
  Claim C4, as stated, fails: for a root that does not exist
  \<open>find_images_in_directory\<close> returns the empty list and raises nothing.
\<close>

theorem find_images_missing_root_counterexample:
  "lookup (cwd example_env) (fs example_state) (to_Path (Str ''nowhere'')) = None \<and>
   find_images_in_directory example_env default_extractor (Str ''nowhere'') True example_state
     = (Inr [], example_state)"
  by code_simp

text \<open>
  Claim C4, amended. \<open>find_images_in_directory\<close> leaves the state as it is. For a
  root that does not exist, that is when \<open>os.stat\<close> fails on it with an error
  \<open>e\<close>: when \<open>e\<close> is one that \<open>is_dir\<close> and \<open>exists\<close> swallow (nothing
  is found at the path), the locator returns the empty list, and the condition is raised,
  as \<open>FileNotFoundError\<close>, by \<open>batch_extract_text\<close>, which checks the path before
  it calls the locator; when it is another one (a name that is too long), both raise the
  error of the operating system itself.
\<close>

theorem find_images_missing_root:
  "snd (find_images_in_directory E (ImageTextExtractor config) a recursive s) = s \<and>
   (\<forall>e. os_stat (cwd E) (fs s) (to_Path a) = Inl e \<and> ignore_error e \<longrightarrow>
      fst (find_images_in_directory E (ImageTextExtractor config) a recursive s) = Inr [] \<and>
      fst (batch_extract_text E (ImageTextExtractor config) a s) =
        Inl (Raise FileNotFoundError (''Source path not found: '' @ str_path (to_Path a)))) \<and>
   (\<forall>e. os_stat (cwd E) (fs s) (to_Path a) = Inl e \<and> \<not> ignore_error e \<longrightarrow>
      fst (find_images_in_directory E (ImageTextExtractor config) a recursive s)
        = Inl (os_error E e (to_Path a)) \<and>
      fst (batch_extract_text E (ImageTextExtractor config) a s)
        = Inl (os_error E e (to_Path a)))"
  by (simp add: find_images_state find_images_missing batch_missing ImageTextExtractor_def)

text \<open>
  In the concrete world the root \<open>nowhere\<close> is not found, and \<open>os.stat\<close> refuses
  the name of 260 bytes.
\<close>

theorem find_images_missing_root_witness:
  "os_stat (cwd example_env) (fs example_state) (to_Path (Str ''nowhere''))
     = Inl FileNotFoundError \<and>
   ignore_error FileNotFoundError \<and>
   snd (find_images_in_directory example_env default_extractor (Str ''nowhere'') False
          example_state) = example_state \<and>
   fst (find_images_in_directory example_env default_extractor (Str ''nowhere'') False
          example_state) = Inr [] \<and>
   fst (batch_extract_text example_env default_extractor (Str ''nowhere'') example_state) =
     Inl (Raise FileNotFoundError ''Source path not found: nowhere'') \<and>
   os_stat (cwd example_env) (fs example_state) (to_Path (Str long_name)) = Inl OSError \<and>
   \<not> ignore_error OSError \<and>
   fst (find_images_in_directory example_env default_extractor (Str long_name) True
          example_state)
     = Inl (Raise OSError (''[Errno 36] File name too long: ''
                           @ [CHR 0x27] @ long_name @ [CHR 0x27])) \<and>
   fst (batch_extract_text example_env default_extractor (Str long_name) example_state)
     = Inl (Raise OSError (''[Errno 36] File name too long: ''
                           @ [CHR 0x27] @ long_name @ [CHR 0x27]))"
proof -
  have missing: "os_stat (cwd example_env) (fs example_state) (to_Path (Str ''nowhere''))
      = Inl FileNotFoundError"
    by code_simp
  have long: "os_stat (cwd example_env) (fs example_state) (to_Path (Str long_name))
      = Inl OSError"
    by code_simp
  have ig: "ignore_error FileNotFoundError" "\<not> ignore_error OSError"
    by code_simp+
  have st: "str_path (Path ''nowhere'') = ''nowhere''"
    and ms: "os_error example_env OSError (Path long_name)
      = Raise OSError (''[Errno 36] File name too long: '' @ [CHR 0x27] @ long_name @ [CHR 0x27])"
    by code_simp+
  have first: "snd (find_images_in_directory example_env default_extractor (Str ''nowhere'')
          False example_state) = example_state \<and>
      fst (find_images_in_directory example_env default_extractor (Str ''nowhere'') False
          example_state) = Inr [] \<and>
      fst (batch_extract_text example_env default_extractor (Str ''nowhere'') example_state) =
        Inl (Raise FileNotFoundError ''Source path not found: nowhere'')"
    using missing ig
      find_images_missing_root[of example_env "''--oem 3 --psm 6''" "Str ''nowhere''" False
        example_state]
    by (auto simp: st default_extractor_def)
  have second: "fst (find_images_in_directory example_env default_extractor (Str long_name)
          True example_state)
        = Inl (Raise OSError (''[Errno 36] File name too long: ''
                           @ [CHR 0x27] @ long_name @ [CHR 0x27])) \<and>
      fst (batch_extract_text example_env default_extractor (Str long_name) example_state)
        = Inl (Raise OSError (''[Errno 36] File name too long: ''
                           @ [CHR 0x27] @ long_name @ [CHR 0x27]))"
    using long ig
      find_images_missing_root[of example_env "''--oem 3 --psm 6''" "Str long_name" True
        example_state]
    by (auto simp: ms default_extractor_def)
  show ?thesis
    using missing long ig first second by blast
qed

text \<open>
  Claim C5 at \<open>pics/photo.Jpg\<close>: the file exists and its extension, lowered, is a
  supported one, as the extractor tests it; the locator, which globs for the lower-case
  and the upper-case spelling only, does not return it.
\<close>

theorem find_images_misses_mixed_case:
  "lookup (cwd example_env) (fs example_state) (Path ''pics/photo.Jpg'')
     = Some (File ''MIXED'') \<and>
   lower (suffix (Path ''pics/photo.Jpg'')) \<in> set (supported_formats default_extractor) \<and>
   fst (find_images_in_directory example_env default_extractor (Str ''pics'') True example_state)
     = Inr example_images \<and>
   Path ''pics/photo.Jpg'' \<notin> set example_images"
  by code_simp

section \<open>Properties of the result sink: unknown formats\<close>

text \<open>
  Claim C9. For an output format other than \<open>console\<close>, \<open>json\<close> and \<open>text\<close>,
  \<open>save_results\<close> returns normally and leaves the state as it is: no file is
  written, no directory created, nothing printed and nothing logged.
\<close>

theorem save_results_unknown_format_is_noop:
  assumes "output_format \<notin> {''console'', ''json'', ''text''}"
  shows "save_results E results output_format output_path s = (Inr (), s)"
  using assms by (simp add: save_results_def io_return_def)

text \<open>The format \<open>xml\<close> is none of the three.\<close>

theorem save_results_unknown_format_is_noop_witness:
  "''xml'' \<notin> {''console'', ''json'', ''text''} \<and>
   save_results example_env [hello_result, blank_result] ''xml'' None example_state
     = (Inr (), example_state)"
proof -
  have fmt: "''xml'' \<notin> {''console'', ''json'', ''text''}"
    by simp
  show ?thesis
    using fmt save_results_unknown_format_is_noop[OF fmt] by simp
qed

section \<open>Properties of the command line\<close>

















section \<open>Properties of the result sink: files\<close>

lemma writes_text_iff:
  assumes "success r \<and> text_field r \<noteq> '''' \<longrightarrow> strip (text_field r) \<noteq> ''''"
  shows "writes_text r \<longleftrightarrow> success r \<and> text_field r \<noteq> ''''"
  using assms strip_Nil by (auto simp: writes_text_def)

lemma text_loop_run:
  assumes "resolve (cwd E) (fs s) out = Inr dloc" and "stat (fs s) dloc = Directory"
    and "\<forall>r \<in> set rs. success r \<and> text_field r \<noteq> '''' \<longrightarrow> strip (text_field r) \<noteq> ''''"
    and "\<forall>r \<in> set rs. writes_text r \<longrightarrow>
           stat (fs s) (dloc @ [text_filename r]) \<noteq> Directory \<and>
           length (text_filename r) \<le> NAME_MAX \<and>
           CHR 0x00 \<notin> set (str_path (joinpath out (text_filename r))) \<and>
           length (str_path (joinpath out (text_filename r))) < PATH_MAX \<and>
           valid_utf8 (text_field r)"
  shows "\<exists>s'. text_loop E out rs s = (Inr (), s') \<and> stdout s' = stdout s \<and> logs s' = logs s \<and>
    ops s' = ops s @ map (\<lambda>r. Wrote (joinpath out (text_filename r)) (text_field r))
                       (filter writes_text rs) \<and>
    (\<forall>q. stat (fs s') q =
       (if \<exists>n. q = dloc @ [n] \<and> written rs n \<noteq> None
        then Regular (the (written rs (last q))) else stat (fs s) q))"
  using assms
proof (induction rs arbitrary: s)
  case Nil
  show ?case by (simp add: io_return_def)
next
  case (Cons r rs)
  have wi: "writes_text r \<longleftrightarrow> success r \<and> text_field r \<noteq> ''''"
    using Cons.prems(3) by (intro writes_text_iff) simp
  have p3: "\<forall>x \<in> set rs. success x \<and> text_field x \<noteq> '''' \<longrightarrow> strip (text_field x) \<noteq> ''''"
    using Cons.prems(3) by simp
  show ?case
  proof (cases "writes_text r")
    case False
    have step: "text_loop E out (r # rs) s = text_loop E out rs s"
      using False wi by (auto simp: io_bind_def io_return_def)
    have w: "written (r # rs) n = written rs n" for n
      using False by (simp split: option.splits)
    have f: "filter writes_text (r # rs) = filter writes_text rs"
      using False by simp
    have p4: "\<forall>x \<in> set rs. writes_text x \<longrightarrow>
           stat (fs s) (dloc @ [text_filename x]) \<noteq> Directory \<and>
           length (text_filename x) \<le> NAME_MAX \<and>
           CHR 0x00 \<notin> set (str_path (joinpath out (text_filename x))) \<and>
           length (str_path (joinpath out (text_filename x))) < PATH_MAX \<and>
           valid_utf8 (text_field x)"
      using Cons.prems(4) by simp
    from Cons.IH[OF Cons.prems(1,2) p3 p4] show ?thesis
      unfolding step w f .
  next
    case True
    let ?loc = "dloc @ [text_filename r]"
    let ?p = "joinpath out (text_filename r)"
    let ?s1 = "s\<lparr>fs := put (fs s) ?loc (File (text_field r)),
                  ops := ops s @ [Wrote ?p (text_field r)]\<rparr>"
    have tr: "stat (fs s) ?loc \<noteq> Directory" "length (text_filename r) \<le> NAME_MAX"
      "CHR 0x00 \<notin> set (str_path ?p)" "length (str_path ?p) < PATH_MAX"
      "valid_utf8 (text_field r)"
      using Cons.prems(4) True by simp_all
    have res: "resolve (cwd E) (fs s) ?p = Inr ?loc"
      by (rule resolve_join[OF Cons.prems(1,2) tr(2,3,4)])
    have wr: "write_chunks E ?p [text_field r] s = (Inr (), ?s1)"
      by (rule write_chunks_run[OF res tr(1,5)])
    have st1: "stat (fs ?s1) q = (if q = ?loc then Regular (text_field r) else stat (fs s) q)" for q
      using stat_put_leaf[OF res tr(1), of "File (text_field r)" q] by simp
    have mono: "stat (fs s) q = Directory \<Longrightarrow> stat (fs ?s1) q = Directory" for q
      using st1[of q] tr(1) by auto
    have p1: "resolve (cwd E) (fs ?s1) out = Inr dloc"
      using resolve_mono[OF mono Cons.prems(1)] by simp
    have p2: "stat (fs ?s1) dloc = Directory"
      using st1[of dloc] Cons.prems(2) by simp
    have p4: "\<forall>x \<in> set rs. writes_text x \<longrightarrow>
           stat (fs ?s1) (dloc @ [text_filename x]) \<noteq> Directory \<and>
           length (text_filename x) \<le> NAME_MAX \<and>
           CHR 0x00 \<notin> set (str_path (joinpath out (text_filename x))) \<and>
           length (str_path (joinpath out (text_filename x))) < PATH_MAX \<and>
           valid_utf8 (text_field x)"
      using Cons.prems(4) st1 by simp
    from Cons.IH[OF p1 p2 p3 p4] obtain s' where
      run: "text_loop E out rs ?s1 = (Inr (), s')" and out': "stdout s' = stdout ?s1"
      and logs': "logs s' = logs ?s1"
      and ops': "ops s' = ops ?s1 @ map (\<lambda>r. Wrote (joinpath out (text_filename r)) (text_field r))
                       (filter writes_text rs)"
      and st': "\<And>q. stat (fs s') q =
       (if \<exists>n. q = dloc @ [n] \<and> written rs n \<noteq> None
        then Regular (the (written rs (last q))) else stat (fs ?s1) q)"
      by blast
    have step: "text_loop E out (r # rs) s = (Inr (), s')"
      using True wi wr run by (simp add: io_bind_def Let_def)
    have "stat (fs s') q =
       (if \<exists>n. q = dloc @ [n] \<and> written (r # rs) n \<noteq> None
        then Regular (the (written (r # rs) (last q))) else stat (fs s) q)" for q
    proof (cases "\<exists>n. q = dloc @ [n]")
      case False
      then have "q \<noteq> ?loc" by blast
      with False st'[of q] st1[of q] show ?thesis by auto
    next
      case True
      then obtain n where q: "q = dloc @ [n]" by blast
      show ?thesis
        using st'[of q] st1[of q] q \<open>writes_text r\<close>
        by (cases "written rs n") auto
    qed
    with step out' logs' ops' True show ?thesis by simp
  qed
qed

lemma written_Some_iff:
  "written rs n \<noteq> None \<longleftrightarrow> (\<exists>r \<in> set rs. writes_text r \<and> text_filename r = n)"
  by (induction rs) (auto split: option.splits)

text \<open>
  Claim C6, as stated, fails: the successful results for \<open>c.png\<close> and
  \<open>c.jpg\<close>, both with text, leave one file \<open>c.txt\<close> in the fresh
  destination, holding the text of the second, not one file each.
\<close>

theorem stem_collision_counterexample:
  "fst (save_results example_env [hello_result, world_result] ''text'' (Some (Path ''out''))
          example_state) = Inr () \<and>
   dir_entries (cwd example_env)
     (fs (snd (save_results example_env [hello_result, world_result] ''text''
                 (Some (Path ''out'')) example_state)))
     (Path ''out'') = [''c.txt''] \<and>
   lookup (cwd example_env)
     (fs (snd (save_results example_env [hello_result, world_result] ''text''
                 (Some (Path ''out'')) example_state)))
     (Path ''out/c.txt'') = Some (File ''WORLD'') \<and>
   length (filter writes_text [hello_result, world_result]) = 2"
  by code_simp

text \<open>
  Claim C6, amended. Take results of which none is successful with a text that is not
  empty but empty once trimmed (the claim and the script differ on such a result, and
  nothing is said about it here). Let the destination resolve to the location
  \<open>dloc\<close>, absent or a directory, and let every target be a name the system accepts,
  not a directory, with a text that UTF-8 can encode. Then the text sink returns normally
  and prints nothing. Its operations on the file system are exactly: making the
  destination when it was absent, and then, for each successful result with non-empty
  trimmed text and for no other, one write of its text to the file named by the stem of
  its file name followed by \<open>.txt\<close>, in the destination, in the order of the
  results. Afterwards the destination is a directory; the file named \<open>n\<close> in it
  holds the text of the last such result that was written to it, and is as before when
  there is none; and nothing else changes. Results that share a stem are written to the
  same file, so the destination gains one file for each stem, not for each result.
\<close>

theorem save_results_text_files:
  assumes "out = (case output_path of None \<Rightarrow> Path ''extracted_text'' | Some p \<Rightarrow> p)"
    and "resolve (cwd E) (fs s) out = Inr dloc"
    and "stat (fs s) dloc = Absent \<or> stat (fs s) dloc = Directory"
    and "\<forall>r \<in> set results.
           success r \<and> text_field r \<noteq> '''' \<longrightarrow> strip (text_field r) \<noteq> ''''"
    and "\<forall>r \<in> set results. writes_text r \<longrightarrow>
           stat (fs s) (dloc @ [text_filename r]) \<noteq> Directory \<and>
           length (text_filename r) \<le> NAME_MAX \<and>
           CHR 0x00 \<notin> set (str_path (joinpath out (text_filename r))) \<and>
           length (str_path (joinpath out (text_filename r))) < PATH_MAX \<and>
           valid_utf8 (text_field r)"
  shows "\<exists>s'. save_results E results ''text'' output_path s = (Inr (), s') \<and>
           stdout s' = stdout s \<and>
           ops s' = ops s @ (if stat (fs s) dloc = Absent then [Made_dir out] else [])
                      @ map (\<lambda>r. Wrote (joinpath out (text_filename r)) (text_field r))
                          (filter writes_text results) \<and>
           stat (fs s') dloc = Directory \<and>
           (\<forall>n. stat (fs s') (dloc @ [n]) =
                  (case written results n of
                     Some x \<Rightarrow> Regular x
                   | None \<Rightarrow> stat (fs s) (dloc @ [n]))) \<and>
           (\<forall>n. written results n \<noteq> None \<longleftrightarrow>
                  (\<exists>r \<in> set results. writes_text r \<and> text_filename r = n)) \<and>
           (\<forall>q. q \<noteq> dloc \<and> (\<forall>n. q \<noteq> dloc @ [n]) \<longrightarrow> stat (fs s') q = stat (fs s) q)"
proof -
  obtain s1 where mk: "mkdir_exist_ok E out s = (Inr (), s1)"
    and io1: "stdout s1 = stdout s"
    and op1: "ops s1 = ops s @ (if stat (fs s) dloc = Absent then [Made_dir out] else [])"
    and st1: "\<And>q. stat (fs s1) q = (if q = dloc then Directory else stat (fs s) q)"
  proof (cases "stat (fs s) dloc = Directory")
    case True
    with mkdir_run(1)[OF assms(2)] that[of s] show ?thesis by simp
  next
    case False
    with assms(3) have ab: "stat (fs s) dloc = Absent" by simp
    have nd: "stat (fs s) dloc \<noteq> Directory" using ab by simp
    show ?thesis
      using mkdir_run(2)[OF assms(2) ab] stat_put_leaf[OF assms(2) nd, of "Dir []"] ab
        that[of "s\<lparr>fs := put (fs s) dloc (Dir []), ops := ops s @ [Made_dir out]\<rparr>"]
      by simp
  qed
  have mono: "stat (fs s) q = Directory \<Longrightarrow> stat (fs s1) q = Directory" for q
    by (simp add: st1)
  have p1: "resolve (cwd E) (fs s1) out = Inr dloc"
    by (rule resolve_mono[OF mono assms(2)])
  have p2: "stat (fs s1) dloc = Directory"
    by (simp add: st1)
  have p4: "\<forall>r \<in> set results. writes_text r \<longrightarrow>
           stat (fs s1) (dloc @ [text_filename r]) \<noteq> Directory \<and>
           length (text_filename r) \<le> NAME_MAX \<and>
           CHR 0x00 \<notin> set (str_path (joinpath out (text_filename r))) \<and>
           length (str_path (joinpath out (text_filename r))) < PATH_MAX \<and>
           valid_utf8 (text_field r)"
    using assms(5) by (simp add: st1)
  from text_loop_run[OF p1 p2 assms(4) p4] obtain s2 where
    run: "text_loop E out results s1 = (Inr (), s2)" and io2: "stdout s2 = stdout s1"
    and op2: "ops s2 = ops s1 @ map (\<lambda>r. Wrote (joinpath out (text_filename r)) (text_field r))
                          (filter writes_text results)"
    and st2: "\<And>q. stat (fs s2) q =
       (if \<exists>n. q = dloc @ [n] \<and> written results n \<noteq> None
        then Regular (the (written results (last q))) else stat (fs s1) q)"
    by blast
  let ?s' = "s2\<lparr>logs := logs s2 @ [(''INFO'', ''Text files saved to '' @ str_path out)]\<rparr>"
  have sv: "save_results E results ''text'' output_path s = (Inr (), ?s')"
    using mk run assms(1) by (simp add: save_results_def io_bind_def logger_def Let_def)
  have a: "stat (fs ?s') dloc = Directory"
    using st2[of dloc] p2 by simp
  have b: "stat (fs ?s') (dloc @ [n]) =
      (case written results n of Some x \<Rightarrow> Regular x | None \<Rightarrow> stat (fs s) (dloc @ [n]))" for n
    using st2[of "dloc @ [n]"] st1[of "dloc @ [n]"] by (cases "written results n") auto
  have c: "stat (fs ?s') q = stat (fs s) q" if "q \<noteq> dloc \<and> (\<forall>n. q \<noteq> dloc @ [n])" for q
    using st2[of q] st1[of q] that by auto
  have d: "ops ?s' = ops s @ (if stat (fs s) dloc = Absent then [Made_dir out] else [])
                      @ map (\<lambda>r. Wrote (joinpath out (text_filename r)) (text_field r))
                          (filter writes_text results)"
    using op1 op2 by simp
  show ?thesis
    using sv io1 io2 a b c d written_Some_iff
    by (intro exI[of _ ?s']) simp
qed

text \<open>
  A blank result, a failed one and two results of stem \<open>c\<close>, into the fresh
  destination \<open>out\<close>: the directory is made and two writes follow, both to
  \<open>out/c.txt\<close>.
\<close>

theorem save_results_text_files_witness:
  "resolve (cwd example_env) (fs example_state) (Path ''out'') = Inr [''home'', ''out''] \<and>
   stat (fs example_state) [''home'', ''out''] = Absent \<and>
   \<not> writes_text blank_result \<and> \<not> writes_text missing_result \<and>
   writes_text hello_result \<and> writes_text world_result \<and>
   text_filename hello_result = ''c.txt'' \<and> text_filename world_result = ''c.txt'' \<and>
   stat (fs example_state) [''home'', ''out'', ''c.txt''] \<noteq> Directory \<and>
   (\<exists>s'. save_results example_env [blank_result, hello_result, missing_result, world_result]
            ''text'' (Some (Path ''out'')) example_state = (Inr (), s') \<and>
      ops s' = [Made_dir (Path ''out''), Wrote (Path ''out/c.txt'') ''HELLO'',
                Wrote (Path ''out/c.txt'') ''WORLD''] \<and>
      stat (fs s') [''home'', ''out''] = Directory \<and>
      stat (fs s') [''home'', ''out'', ''c.txt''] = Regular ''WORLD'' \<and>
      stat (fs s') [''home'', ''out'', ''b.txt''] = Absent \<and>
      stat (fs s') [''home'', ''out'', ''missing.txt''] = Absent)"
proof -
  let ?rs = "[blank_result, hello_result, missing_result, world_result]"
  have h1: "Path ''out'' = (case Some (Path ''out'') of None \<Rightarrow> Path ''extracted_text'' | Some p \<Rightarrow> p)"
    by simp
  have h2: "resolve (cwd example_env) (fs example_state) (Path ''out'') = Inr [''home'', ''out'']"
    by code_simp
  have h3: "stat (fs example_state) [''home'', ''out''] = Absent"
    by code_simp
  have w: "\<not> writes_text blank_result" "\<not> writes_text missing_result"
    "writes_text hello_result" "writes_text world_result"
    "text_filename hello_result = ''c.txt''" "text_filename world_result = ''c.txt''"
    "stat (fs example_state) [''home'', ''out'', ''c.txt''] \<noteq> Directory"
    by code_simp+
  have k: "success blank_result \<and> text_field blank_result \<noteq> ''''
        \<longrightarrow> strip (text_field blank_result) \<noteq> ''''"
    "success hello_result \<and> text_field hello_result \<noteq> ''''
        \<longrightarrow> strip (text_field hello_result) \<noteq> ''''"
    "success missing_result \<and> text_field missing_result \<noteq> ''''
        \<longrightarrow> strip (text_field missing_result) \<noteq> ''''"
    "success world_result \<and> text_field world_result \<noteq> ''''
        \<longrightarrow> strip (text_field world_result) \<noteq> ''''"
    by code_simp+
  have h4: "\<forall>r \<in> set ?rs. success r \<and> text_field r \<noteq> '''' \<longrightarrow> strip (text_field r) \<noteq> ''''"
    using k by simp
  have t: "length ''c.txt'' \<le> NAME_MAX"
    "CHR 0x00 \<notin> set (str_path (joinpath (Path ''out'') ''c.txt''))"
    "length (str_path (joinpath (Path ''out'') ''c.txt'')) < PATH_MAX"
    "valid_utf8 (text_field hello_result)" "valid_utf8 (text_field world_result)"
    by code_simp+
  have h5: "\<forall>r \<in> set ?rs. writes_text r \<longrightarrow>
      stat (fs example_state) ([''home'', ''out''] @ [text_filename r]) \<noteq> Directory \<and>
      length (text_filename r) \<le> NAME_MAX \<and>
      CHR 0x00 \<notin> set (str_path (joinpath (Path ''out'') (text_filename r))) \<and>
      length (str_path (joinpath (Path ''out'') (text_filename r))) < PATH_MAX \<and>
      valid_utf8 (text_field r)"
    using w t by simp
  have c: "written ?rs ''c.txt'' = Some ''WORLD''"
    and b: "written ?rs ''b.txt'' = None"
    and m: "written ?rs ''missing.txt'' = None"
    and a: "stat (fs example_state) [''home'', ''out'', ''b.txt''] = Absent"
      "stat (fs example_state) [''home'', ''out'', ''missing.txt''] = Absent"
    and o: "ops example_state
        @ (if stat (fs example_state) [''home'', ''out''] = Absent
           then [Made_dir (Path ''out'')] else [])
        @ map (\<lambda>r. Wrote (joinpath (Path ''out'') (text_filename r)) (text_field r))
            (filter writes_text ?rs)
      = [Made_dir (Path ''out''), Wrote (Path ''out/c.txt'') ''HELLO'',
         Wrote (Path ''out/c.txt'') ''WORLD'']"
    by code_simp+
  from save_results_text_files[OF h1 h2 disjI1[OF h3] h4 h5]
  obtain s' where run: "save_results example_env ?rs ''text'' (Some (Path ''out''))
        example_state = (Inr (), s')"
    and ops: "ops s' = ops example_state
        @ (if stat (fs example_state) [''home'', ''out''] = Absent
           then [Made_dir (Path ''out'')] else [])
        @ map (\<lambda>r. Wrote (joinpath (Path ''out'') (text_filename r)) (text_field r))
            (filter writes_text ?rs)"
    and d: "stat (fs s') [''home'', ''out''] = Directory"
    and f: "\<And>n. stat (fs s') ([''home'', ''out''] @ [n]) =
        (case written ?rs n of
           Some x \<Rightarrow> Regular x
         | None \<Rightarrow> stat (fs example_state) ([''home'', ''out''] @ [n]))"
    by blast
  have "stat (fs s') [''home'', ''out'', ''c.txt''] = Regular ''WORLD''"
    using f[of "''c.txt''"] c by simp
  moreover have "stat (fs s') [''home'', ''out'', ''b.txt''] = Absent"
    using f[of "''b.txt''"] b a by simp
  moreover have "stat (fs s') [''home'', ''out'', ''missing.txt''] = Absent"
    using f[of "''missing.txt''"] m a by simp
  moreover have "ops s' = [Made_dir (Path ''out''), Wrote (Path ''out/c.txt'') ''HELLO'',
         Wrote (Path ''out/c.txt'') ''WORLD'']"
    using ops o by simp
  ultimately show ?thesis
    using h2 h3 w run d by blast
qed

end
